theory Spec2Isabelle
  imports Complex_Main
begin

section \<open>Exceptions\<close>

text \<open>
  The notebooks are Python 2. An exception that leaves a function is the \<open>Inl\<close> branch of
  its result. \<open>ZeroDivisionError\<close>, \<open>KeyError\<close>, \<open>AssertionError\<close>, \<open>TypeError\<close> and
  \<open>AttributeError\<close> are raised by the interpreter while it runs the notebooks' own
  statements; \<open>LibraryError\<close> stands for whatever the numerical libraries (dolfin, PETSc,
  numpy, scipy, sympy, cbc.block) raise on arguments they reject.
\<close>

datatype error =
  ZeroDivisionError | KeyError | AssertionError | TypeError | AttributeError | LibraryError

definition and_then :: "error + 'a \<Rightarrow> ('a \<Rightarrow> error + 'b) \<Rightarrow> error + 'b" where
  "and_then m f = (case m of Inl e \<Rightarrow> Inl e | Inr v \<Rightarrow> f v)"

section \<open>Floating-point scalars\<close>

text \<open>
  The scalars of the notebooks are IEEE doubles: their arithmetic rounds, overflows to
  infinity and has NaN. The model does not fix that arithmetic. The scalars are the
  values of any type \<open>'a\<close>, and the operations the code applies to them are the fields
  of a record that every function of the model takes as its first argument:
  \<open>flit\<close> reads a decimal literal of the source, \<open>fadd\<close>, \<open>fsub\<close>, \<open>fmul\<close>, \<open>fdiv\<close> and
  \<open>fsqrt\<close> are \<open>+\<close>, \<open>-\<close>, \<open>*\<close>, \<open>/\<close> (for a divisor that is not zero) and \<open>sqrt\<close>,
  \<open>fgt a b\<close> is the comparison \<open>a > b\<close>, which is false when either side is NaN,
  \<open>is_zero a\<close> is \<open>a == 0.0\<close>, \<open>fdot\<close> is the value of the inner product of two
  vectors of one length and \<open>frow\<close> the entry that a row of a matrix contributes to a
  matrix-vector product, each in whatever order the library adds the products up. A
  property proved for every such record holds of the doubles.
\<close>

record 'a arithmetic =
  flit :: "real \<Rightarrow> 'a"
  fadd :: "'a \<Rightarrow> 'a \<Rightarrow> 'a"
  fsub :: "'a \<Rightarrow> 'a \<Rightarrow> 'a"
  fmul :: "'a \<Rightarrow> 'a \<Rightarrow> 'a"
  fdiv :: "'a \<Rightarrow> 'a \<Rightarrow> 'a"
  fsqrt :: "'a \<Rightarrow> 'a"
  fgt :: "'a \<Rightarrow> 'a \<Rightarrow> bool"
  is_zero :: "'a \<Rightarrow> bool"
  fdot :: "'a list \<Rightarrow> 'a list \<Rightarrow> 'a"
  frow :: "'a list \<Rightarrow> 'a list \<Rightarrow> 'a"

text \<open>
  Two arithmetics to run the functions in. \<open>exact\<close> computes in the reals without
  rounding: a computation in doubles all of whose operands and results are
  representable, none of them an infinity or NaN, goes the same way in \<open>exact\<close>.
\<close>

definition exact :: "real arithmetic" where
  "exact =
     \<lparr>flit = (\<lambda>a. a), fadd = (\<lambda>a b. a + b), fsub = (\<lambda>a b. a - b), fmul = (\<lambda>a b. a * b),
      fdiv = (\<lambda>a b. a / b), fsqrt = sqrt, fgt = (\<lambda>a b. b < a), is_zero = (\<lambda>a. a = 0),
      fdot = (\<lambda>u v. sum_list (map2 (\<lambda>a b. a * b) u v)),
      frow = (\<lambda>u v. sum_list (map2 (\<lambda>a b. a * b) u v))\<rparr>"

text \<open>
  \<open>binary64\<close> rounds every result to the nearest double, ties to the even significand:
  \<open>binary_exponent\<close> finds \<open>e\<close> with \<open>2^e \<le> x < 2^(e+1)\<close> for a positive \<open>x\<close>, and a double
  with that exponent is a multiple of \<open>2^(e-52)\<close>. It is the arithmetic of the doubles
  as long as every result is zero or of a magnitude between \<open>2^(-1022)\<close> and the largest
  double; subnormal numbers, infinities and NaN are not in it.
\<close>

fun binary_exponent :: "nat \<Rightarrow> real \<Rightarrow> int" where
  "binary_exponent 0 x = 0"
| "binary_exponent (Suc fuel) x =
     (if x < 1 then binary_exponent fuel (2 * x) - 1
      else if 2 \<le> x then binary_exponent fuel (x / 2) + 1
      else 0)"

definition round_half_even :: "real \<Rightarrow> int" where
  "round_half_even q =
     (let f = \<lfloor>q\<rfloor>; d = q - of_int f
      in if d < 1 / 2 then f else if 1 / 2 < d then f + 1 else if even f then f else f + 1)"

definition round64 :: "real \<Rightarrow> real" where
  "round64 x =
     (if x = 0 then 0
      else let e = binary_exponent 1100 \<bar>x\<bar>;
               ulp = (if 52 \<le> e then 2 ^ nat (e - 52) else 1 / 2 ^ nat (52 - e))
           in of_int (round_half_even (x / ulp)) * ulp)"

definition binary64 :: "real arithmetic" where
  "binary64 =
     \<lparr>flit = round64,
      fadd = (\<lambda>a b. round64 (a + b)), fsub = (\<lambda>a b. round64 (a - b)),
      fmul = (\<lambda>a b. round64 (a * b)), fdiv = (\<lambda>a b. round64 (a / b)),
      fsqrt = (\<lambda>a. round64 (sqrt a)), fgt = (\<lambda>a b. b < a), is_zero = (\<lambda>a. a = 0),
      fdot = (\<lambda>u v. foldl (\<lambda>acc (a, b). round64 (acc + round64 (a * b))) 0 (zip u v)),
      frow = (\<lambda>u v. foldl (\<lambda>acc (a, b). round64 (acc + round64 (a * b))) 0 (zip u v))\<rparr>"

section \<open>Vectors, matrices and the object store\<close>

text \<open>
  A vector is the list of its entries and a linear operator (an assembled matrix, an
  algebraic-multigrid cycle, a scaled operator) is the list of its rows. The operations
  below are the library calls that \<open>steepest_descent\<close> makes; each one hands back a new
  object, and each rejects operands whose sizes do not agree.
\<close>

type_synonym 'a vec = "'a list"
type_synonym 'a mat = "'a list list"

definition vec_inner :: "'a arithmetic \<Rightarrow> 'a vec \<Rightarrow> 'a vec \<Rightarrow> error + 'a" where
  \<comment> \<open>\<open>u.inner(v)\<close>\<close>
  "vec_inner ar u v = (if length u = length v then Inr (fdot ar u v) else Inl LibraryError)"

definition vec_sub :: "'a arithmetic \<Rightarrow> 'a vec \<Rightarrow> 'a vec \<Rightarrow> error + 'a vec" where
  \<comment> \<open>\<open>u - v\<close>\<close>
  "vec_sub ar u v =
     (if length u = length v then Inr (map2 (fsub ar) u v) else Inl LibraryError)"

definition vec_scale :: "'a arithmetic \<Rightarrow> 'a \<Rightarrow> 'a vec \<Rightarrow> 'a vec" where
  \<comment> \<open>\<open>c*v\<close>\<close>
  "vec_scale ar c v = map (fmul ar c) v"

definition vec_iadd :: "'a arithmetic \<Rightarrow> 'a vec \<Rightarrow> 'a vec \<Rightarrow> error + 'a vec" where
  \<comment> \<open>the entries of \<open>u\<close> after \<open>u += v\<close>\<close>
  "vec_iadd ar u v =
     (if length u = length v then Inr (map2 (fadd ar) u v) else Inl LibraryError)"

definition mat_vec :: "'a arithmetic \<Rightarrow> 'a mat \<Rightarrow> 'a vec \<Rightarrow> error + 'a vec" where
  \<comment> \<open>\<open>M*v\<close>\<close>
  "mat_vec ar M v =
     (if \<forall>row \<in> set M. length row = length v then Inr (map (\<lambda>row. frow ar row v) M)
      else Inl LibraryError)"

definition py_div :: "'a arithmetic \<Rightarrow> 'a \<Rightarrow> 'a \<Rightarrow> error + 'a" where
  \<comment> \<open>\<open>a/b\<close> on Python floats\<close>
  "py_div ar a b = (if is_zero ar b then Inl ZeroDivisionError else Inr (fdiv ar a b))"

text \<open>
  Python passes references. The arguments of a call are addresses into a store of
  objects, so that two arguments may be one object; an in-place update writes the store.
  Objects that a function creates and never hands out are kept as values. A function
  that writes the store returns it, also when it raises.
\<close>

datatype 'a obj = Vec "'a vec" | Mat "'a mat"

type_synonym addr = nat
type_synonym 'a store = "'a obj list"

definition get_vec :: "'a store \<Rightarrow> addr \<Rightarrow> error + 'a vec" where
  "get_vec s a =
     (if a < length s then (case s ! a of Vec v \<Rightarrow> Inr v | Mat _ \<Rightarrow> Inl TypeError)
      else Inl TypeError)"

definition get_mat :: "'a store \<Rightarrow> addr \<Rightarrow> error + 'a mat" where
  "get_mat s a =
     (if a < length s then (case s ! a of Mat M \<Rightarrow> Inr M | Vec _ \<Rightarrow> Inl TypeError)
      else Inl TypeError)"

section \<open>Preconditioned steepest descent (\<open>preconditioning.ipynb\<close>)\<close>

text \<open>
  \<^verbatim>\<open>
  def steepest_descent(A, x, b, B, tolerance, maxiter=200):
      '''Preconditioned steepest descent method.'''
      r = b - A*x
      error = sqrt(r.inner(r))

      iter = 0
      while error > tolerance and iter < maxiter:

          p = B*r
          Ap = A*p
          rho = r.inner(p)/Ap.inner(p)
          x += rho*p
          r = b - A*x

          error = sqrt(r.inner(r))
          iter += 1

      return iter
  \<close>
  \<open>sqrt\<close> raises for a negative number only, and \<open>r.inner(r)\<close>, a sum of squares, is
  never negative.
\<close>

definition residual :: "'a arithmetic \<Rightarrow> 'a store \<Rightarrow> addr \<Rightarrow> addr \<Rightarrow> addr \<Rightarrow> error + 'a vec" where
  \<comment> \<open>\<open>b - A*x\<close>\<close>
  "residual ar s A x b =
     and_then (get_mat s A) (\<lambda>Am.
     and_then (get_vec s x) (\<lambda>xv.
     and_then (mat_vec ar Am xv) (\<lambda>Ax.
     and_then (get_vec s b) (\<lambda>bv.
     vec_sub ar bv Ax))))"

definition residual_error :: "'a arithmetic \<Rightarrow> 'a vec \<Rightarrow> error + 'a" where
  \<comment> \<open>\<open>sqrt(r.inner(r))\<close>\<close>
  "residual_error ar r = and_then (vec_inner ar r r) (\<lambda>rr. Inr (fsqrt ar rr))"

definition sd_products :: "'a arithmetic \<Rightarrow> 'a store \<Rightarrow> addr \<Rightarrow> addr \<Rightarrow> 'a vec \<Rightarrow> error + 'a vec \<times> 'a \<times> 'a" where
  \<comment> \<open>\<open>p\<close>, \<open>r.inner(p)\<close> and \<open>Ap.inner(p)\<close>\<close>
  "sd_products ar s A B r =
     and_then (get_mat s B) (\<lambda>Bm.
     and_then (mat_vec ar Bm r) (\<lambda>p.
     and_then (get_mat s A) (\<lambda>Am.
     and_then (mat_vec ar Am p) (\<lambda>Ap.
     and_then (vec_inner ar r p) (\<lambda>rp.
     and_then (vec_inner ar Ap p) (\<lambda>App.
     Inr (p, rp, App)))))))"

definition sd_update :: "'a arithmetic \<Rightarrow> 'a store \<Rightarrow> addr \<Rightarrow> addr \<Rightarrow> addr \<Rightarrow> 'a vec \<Rightarrow> error + 'a vec" where
  \<comment> \<open>the loop body down to \<open>x += rho*p\<close>: the entries \<open>x\<close> gets, nothing written yet\<close>
  "sd_update ar s A x B r =
     and_then (sd_products ar s A B r) (\<lambda>(p, rp, App).
     and_then (py_div ar rp App) (\<lambda>rho.
     and_then (get_vec s x) (\<lambda>xv.
     vec_iadd ar xv (vec_scale ar rho p))))"

definition sd_body :: "'a arithmetic \<Rightarrow> 'a store \<Rightarrow> addr \<Rightarrow> addr \<Rightarrow> addr \<Rightarrow> addr \<Rightarrow> 'a vec \<Rightarrow> 'a store \<times> (error + 'a vec \<times> 'a)" where
  \<comment> \<open>one pass through the loop body: the store after it, and \<open>r\<close> and \<open>error\<close> unless it raised\<close>
  "sd_body ar s A x b B r =
     (case sd_update ar s A x B r of
        Inl e \<Rightarrow> (s, Inl e)
      | Inr xv' \<Rightarrow>
          let s' = s[x := Vec xv'] in
          (s', and_then (residual ar s' A x b) (\<lambda>r'.
               and_then (residual_error ar r') (\<lambda>err'. Inr (r', err')))))"

record 'a sd_locals =
  sd_r :: "'a vec"
  sd_error :: 'a
  sd_iter :: int

function sd_loop :: "'a arithmetic \<Rightarrow> addr \<Rightarrow> addr \<Rightarrow> addr \<Rightarrow> addr \<Rightarrow> 'a \<Rightarrow> int \<Rightarrow> 'a store \<Rightarrow> 'a sd_locals \<Rightarrow> 'a store \<times> (error + 'a sd_locals)" where
  "sd_loop ar A x b B tolerance maxiter s l =
     (if fgt ar (sd_error l) tolerance \<and> sd_iter l < maxiter then
        (case sd_body ar s A x b B (sd_r l) of
           (s', Inl e) \<Rightarrow> (s', Inl e)
         | (s', Inr (r', err')) \<Rightarrow>
             sd_loop ar A x b B tolerance maxiter s'
               \<lparr>sd_r = r', sd_error = err', sd_iter = sd_iter l + 1\<rparr>)
      else (s, Inr l))"
  by pat_completeness auto
termination
  by (relation "measure (\<lambda>(ar, A, x, b, B, tolerance, maxiter, s, l). nat (maxiter - sd_iter l))") auto

declare sd_loop.simps [simp del]

definition sd_run :: "'a arithmetic \<Rightarrow> 'a store \<Rightarrow> addr \<Rightarrow> addr \<Rightarrow> addr \<Rightarrow> addr \<Rightarrow> 'a \<Rightarrow> int \<Rightarrow> 'a store \<times> (error + 'a sd_locals)" where
  \<comment> \<open>the function up to its \<open>return\<close>: the store, and the local variables unless it raised\<close>
  "sd_run ar s A x b B tolerance maxiter =
     (case and_then (residual ar s A x b) (\<lambda>r.
           and_then (residual_error ar r) (\<lambda>err. Inr (r, err))) of
        Inl e \<Rightarrow> (s, Inl e)
      | Inr (r, err) \<Rightarrow>
          sd_loop ar A x b B tolerance maxiter s \<lparr>sd_r = r, sd_error = err, sd_iter = 0\<rparr>)"

definition steepest_descent :: "'a arithmetic \<Rightarrow> 'a store \<Rightarrow> addr \<Rightarrow> addr \<Rightarrow> addr \<Rightarrow> addr \<Rightarrow> 'a \<Rightarrow> int \<Rightarrow> 'a store \<times> (error + int)" where
  \<comment> \<open>the store the caller sees afterwards, and the returned \<open>iter\<close> unless the call raised\<close>
  "steepest_descent ar s A x b B tolerance maxiter =
     (case sd_run ar s A x b B tolerance maxiter of
        (s', Inl e) \<Rightarrow> (s', Inl e)
      | (s', Inr l) \<Rightarrow> (s', Inr (sd_iter l)))"

text \<open>
  The values \<open>error\<close> takes, in order: the one computed before the loop and the one
  computed at the end of each pass that completes.
\<close>

function sd_errors :: "'a arithmetic \<Rightarrow> addr \<Rightarrow> addr \<Rightarrow> addr \<Rightarrow> addr \<Rightarrow> 'a \<Rightarrow> int \<Rightarrow> 'a store \<Rightarrow> 'a sd_locals \<Rightarrow> 'a list" where
  "sd_errors ar A x b B tolerance maxiter s l =
     sd_error l #
     (if fgt ar (sd_error l) tolerance \<and> sd_iter l < maxiter then
        (case sd_body ar s A x b B (sd_r l) of
           (s', Inl e) \<Rightarrow> []
         | (s', Inr (r', err')) \<Rightarrow>
             sd_errors ar A x b B tolerance maxiter s'
               \<lparr>sd_r = r', sd_error = err', sd_iter = sd_iter l + 1\<rparr>)
      else [])"
  by pat_completeness auto
termination
  by (relation "measure (\<lambda>(ar, A, x, b, B, tolerance, maxiter, s, l). nat (maxiter - sd_iter l))") auto

declare sd_errors.simps [simp del]

definition error_history :: "'a arithmetic \<Rightarrow> 'a store \<Rightarrow> addr \<Rightarrow> addr \<Rightarrow> addr \<Rightarrow> addr \<Rightarrow> 'a \<Rightarrow> int \<Rightarrow> 'a list" where
  "error_history ar s A x b B tolerance maxiter =
     (case and_then (residual ar s A x b) (\<lambda>r.
           and_then (residual_error ar r) (\<lambda>err. Inr (r, err))) of
        Inl e \<Rightarrow> []
      | Inr (r, err) \<Rightarrow>
          sd_errors ar A x b B tolerance maxiter s \<lparr>sd_r = r, sd_error = err, sd_iter = 0\<rparr>)"

text \<open>
  The call the notebook makes has a square matrix \<open>A\<close>, a preconditioner \<open>B\<close> of the same
  size and vectors \<open>x\<close> and \<open>b\<close> of that length. Nothing stops \<open>x\<close> and \<open>b\<close> from being one
  object.
\<close>

definition square_system :: "'a store \<Rightarrow> addr \<Rightarrow> addr \<Rightarrow> addr \<Rightarrow> addr \<Rightarrow> nat \<Rightarrow> bool" where
  "square_system s A x b B n \<longleftrightarrow>
     (case get_mat s A of Inr Am \<Rightarrow> length Am = n \<and> (\<forall>row \<in> set Am. length row = n) | Inl _ \<Rightarrow> False) \<and>
     (case get_mat s B of Inr Bm \<Rightarrow> length Bm = n \<and> (\<forall>row \<in> set Bm. length row = n) | Inl _ \<Rightarrow> False) \<and>
     (case get_vec s x of Inr xv \<Rightarrow> length xv = n | Inl _ \<Rightarrow> False) \<and>
     (case get_vec s b of Inr bv \<Rightarrow> length bv = n | Inl _ \<Rightarrow> False)"

text \<open>
  What holds of the local variables each time the loop condition is evaluated.
\<close>

definition sd_invariant :: "'a arithmetic \<Rightarrow> 'a store \<Rightarrow> addr \<Rightarrow> addr \<Rightarrow> addr \<Rightarrow> int \<Rightarrow> 'a sd_locals \<Rightarrow> bool" where
  "sd_invariant ar s A x b maxiter l \<longleftrightarrow>
     residual ar s A x b = Inr (sd_r l) \<and> residual_error ar (sd_r l) = Inr (sd_error l) \<and>
     0 \<le> sd_iter l \<and> sd_iter l \<le> maxiter"

section \<open>Jacobi preconditioner (\<open>preconditioning.ipynb\<close>)\<close>

text \<open>
  \<^verbatim>\<open>
  def Diag(A):
      '''Diagonal matrix diag(A)'''
      dvec = as_backend_type(A).mat().getDiagonal()

      diagAinv = PETSc.Mat().createAIJ(dvec.size, nnz=1)
      diagAinv.setDiagonal(dvec)
      return PETScMatrix(diagAinv)

  def InvDiag(A):
      '''Diagonal matrix diag(A)^-1'''
      dvec = as_backend_type(A).mat().getDiagonal()
      dvec.reciprocal()

      diagAinv = PETSc.Mat().createAIJ(dvec.size, nnz=1)
      diagAinv.setDiagonal(dvec)
      return PETScMatrix(diagAinv)
  \<close>
  The PETSc calls: \<open>getDiagonal\<close> copies the diagonal into a new vector with one entry
  per row; \<open>reciprocal\<close> replaces in place every entry \<open>a\<close> that is not zero by the
  floating-point quotient \<open>1.0/a\<close> and leaves a zero entry as it is; \<open>createAIJ(n)\<close>
  makes an empty \<open>n\<close> by \<open>n\<close> matrix; \<open>setDiagonal\<close> writes a vector of matching length
  onto the diagonal. \<open>dvec\<close> is never handed out and is kept as a value; the new matrix is
  put in the store and its address returned.
\<close>

definition getDiagonal :: "'a arithmetic \<Rightarrow> 'a mat \<Rightarrow> 'a vec" where
  "getDiagonal ar M =
     map (\<lambda>i. if i < length (M ! i) then M ! i ! i else flit ar 0) [0..<length M]"

definition reciprocal :: "'a arithmetic \<Rightarrow> 'a vec \<Rightarrow> 'a vec" where
  "reciprocal ar v = map (\<lambda>a. if is_zero ar a then a else fdiv ar (flit ar 1) a) v"

definition createAIJ :: "'a arithmetic \<Rightarrow> nat \<Rightarrow> 'a mat" where
  "createAIJ ar n = replicate n (replicate n (flit ar 0))"

definition setDiagonal :: "'a mat \<Rightarrow> 'a vec \<Rightarrow> error + 'a mat" where
  "setDiagonal M d =
     (if length d = length M then Inr (map (\<lambda>i. (M ! i)[i := d ! i]) [0..<length M])
      else Inl LibraryError)"


definition InvDiag :: "'a arithmetic \<Rightarrow> 'a store \<Rightarrow> addr \<Rightarrow> 'a store \<times> (error + addr)" where
  "InvDiag ar s A =
     (case get_mat s A of
        Inl e \<Rightarrow> (s, Inl e)
      | Inr Am \<Rightarrow>
          let dvec = reciprocal ar (getDiagonal ar Am);
              diagAinv = createAIJ ar (length dvec)
          in (case setDiagonal diagAinv dvec of
                Inl e \<Rightarrow> (s, Inl e)
              | Inr D \<Rightarrow> (s @ [Mat D], Inr (length s))))"



section \<open>Meshes (\<open>preconditioning.ipynb\<close>)\<close>

text \<open>
  A mesh object is the record of the dolfin constructor call that made it.
  \<^verbatim>\<open>
  def HyperCubeMesh(dim, ncells):
      return {1: UnitIntervalMesh,
              2: UnitSquareMesh,
              3: UnitCubeMesh}[dim](*(ncells, )*dim)
  \<close>
  \<open>dim\<close> is a Python number, an \<open>int\<close> or a \<open>float\<close> with a finite value, and \<open>ncells\<close> is
  an \<open>int\<close>. The dictionary maps a dimension to a mesh class. The lookup compares keys
  by value, so that the float \<open>1.0\<close> finds the key \<open>1\<close>, and raises \<open>KeyError\<close> when no
  key is equal to \<open>dim\<close>. Then the tuple \<open>(ncells, )*dim\<close> is built: a tuple times an \<open>int\<close>
  is that many copies, none for a negative number, and a tuple times a \<open>float\<close> raises
  \<open>TypeError\<close>. Then the class found is called with the entries of that tuple. A class
  called with the wrong number of arguments raises \<open>TypeError\<close>, and dolfin refuses to
  build a mesh with fewer than one cell along a direction.
\<close>

datatype pynum = PyInt int | PyFloat real

definition py_eq :: "pynum \<Rightarrow> int \<Rightarrow> bool" where
  \<comment> \<open>\<open>k == i\<close> for an \<open>int\<close> \<open>i\<close>\<close>
  "py_eq k i = (case k of PyInt j \<Rightarrow> j = i | PyFloat r \<Rightarrow> r = of_int i)"

fun dict_get :: "(int \<times> 'v) list \<Rightarrow> pynum \<Rightarrow> error + 'v" where
  \<comment> \<open>\<open>{i1: v1, ...}[k]\<close>\<close>
  "dict_get [] k = Inl KeyError"
| "dict_get ((i, v) # entries) k = (if py_eq k i then Inr v else dict_get entries k)"

definition tuple_times :: "'v \<Rightarrow> pynum \<Rightarrow> error + 'v list" where
  \<comment> \<open>\<open>(v, )*k\<close>\<close>
  "tuple_times v k =
     (case k of PyInt j \<Rightarrow> Inr (replicate (nat j) v) | PyFloat r \<Rightarrow> Inl TypeError)"

datatype mesh = UnitIntervalMesh int | UnitSquareMesh int int | UnitCubeMesh int int int

datatype mesh_class = UnitIntervalMesh_class | UnitSquareMesh_class | UnitCubeMesh_class

fun construct :: "mesh_class \<Rightarrow> int list \<Rightarrow> error + mesh" where
  "construct UnitIntervalMesh_class [nx] =
     (if nx < 1 then Inl LibraryError else Inr (UnitIntervalMesh nx))"
| "construct UnitSquareMesh_class [nx, ny] =
     (if nx < 1 \<or> ny < 1 then Inl LibraryError else Inr (UnitSquareMesh nx ny))"
| "construct UnitCubeMesh_class [nx, ny, nz] =
     (if nx < 1 \<or> ny < 1 \<or> nz < 1 then Inl LibraryError else Inr (UnitCubeMesh nx ny nz))"
| "construct _ _ = Inl TypeError"

definition HyperCubeMesh :: "pynum \<Rightarrow> int \<Rightarrow> error + mesh" where
  "HyperCubeMesh d ncells =
     and_then (dict_get [(1, UnitIntervalMesh_class),
                         (2, UnitSquareMesh_class),
                         (3, UnitCubeMesh_class)] d) (\<lambda>cls.
     and_then (tuple_times ncells d) (\<lambda>args.
     construct cls args))"

text \<open>
  The number of subdivisions of a mesh along each of its directions.
\<close>

fun subdivisions :: "mesh \<Rightarrow> int list" where
  "subdivisions (UnitIntervalMesh nx) = [nx]"
| "subdivisions (UnitSquareMesh nx ny) = [nx, ny]"
| "subdivisions (UnitCubeMesh nx ny nz) = [nx, ny, nz]"

section \<open>Expression bodies (\<open>coupled.ipynb\<close>)\<close>


datatype body = Body string | Bodies "body list"

function replace :: "string \<Rightarrow> string \<Rightarrow> string \<Rightarrow> string" where
  "replace old new [] = []"
| "replace old new (c # cs) =
     (if old \<noteq> [] \<and> take (length old) (c # cs) = old
      then new @ replace old new (drop (length old) (c # cs))
      else c # replace old new cs)"
  by pat_completeness auto
termination
  by (relation "measure (\<lambda>(old, new, s). length s)") auto




section \<open>The finite-element library\<close>



section \<open>Linear systems (\<open>preconditioning.ipynb\<close>)\<close>






section \<open>Discrete fractional norm (\<open>coupled.ipynb\<close>)\<close>



section \<open>The experiments that print an iteration count\<close>

text \<open>
  Ten cells of the notebooks solve a linear system iteratively and print \<open>niters\<close>. Nine
  of them build a solver object of a class imported from \<open>block.iterative\<close> and apply it
  to the right-hand side, as in
  \<^verbatim>\<open>
      Ainv = Richardson(A=A, precond=rho*B, initial_guess=x, tolerance=1e-4)
      x[:] = Ainv*b
      niters = len(Ainv.residuals)-1
  \<close>
  The class is named by the string the notebook imports it under. What the external
  solver answers, the solution and its list \<open>residuals\<close> or an exception, is a parameter
  of the model.
\<close>

record 'a solver_call =
  solver :: string
  sc_A :: "'a mat"
  sc_precond :: "'a mat"
  sc_initial_guess :: "'a vec option"
  sc_tolerance :: 'a
  sc_maxiter :: "int option"
  sc_b :: "'a vec"

type_synonym 'a block_iterative = "'a solver_call \<Rightarrow> error + 'a vec \<times> 'a list"

definition apply_solver :: "'a block_iterative \<Rightarrow> 'a solver_call \<Rightarrow> error + 'a vec \<times> int" where
  \<comment> \<open>\<open>x[:] = Ainv*b\<close> and \<open>niters = len(Ainv.residuals)-1\<close>\<close>
  "apply_solver ext c =
     and_then (ext c) (\<lambda>(x, residuals). Inr (x, int (length residuals) - 1))"

definition mat_scale :: "'a arithmetic \<Rightarrow> 'a \<Rightarrow> 'a mat \<Rightarrow> 'a mat" where
  \<comment> \<open>\<open>rho*B\<close>\<close>
  "mat_scale ar c M = map (vec_scale ar c) M"

definition Jacobi :: "'a arithmetic \<Rightarrow> 'a mat \<Rightarrow> error + 'a mat" where
  \<comment> \<open>\<open>B = InvDiag(A)\<close>\<close>
  "Jacobi ar A =
     (case InvDiag ar [Mat A] 0 of
        (s, Inl e) \<Rightarrow> Inl e
      | (s, Inr B) \<Rightarrow> get_mat s B)"

text \<open>
  The cells, in the order of the notebooks: in \<open>preconditioning.ipynb\<close> Richardson with
  the Riesz map of the Poisson problem (\<open>rho = 0.5\<close>), Richardson with the Jacobi
  preconditioner (\<open>2./3*B\<close>) on the Poisson problem and on the \<open>L^2\<close> projection, steepest
  descent, conjugate gradients, Richardson (\<open>rho = 0.8\<close>) and LGMRES on the Galerkin
  convection-diffusion system, LGMRES on the SUPG system; in \<open>coupled.ipynb\<close> MinRes in
  \<open>mixed_poisson_block\<close> and in \<open>babuska\<close>. The assembled matrix \<open>A\<close>, right-hand side \<open>b\<close>,
  preconditioner \<open>B\<close> and initial guess \<open>x\<close> come from the finite-element library. The
  result is the solution vector and the printed \<open>niters\<close>.
\<close>

datatype notebook_cell =
    Richardson_Poisson
  | Jacobi_Poisson
  | Jacobi_projection
  | SteepestDescent_Poisson
  | ConjGrad_Poisson
  | Richardson_convection_diffusion
  | LGMRES_Galerkin
  | LGMRES_SUPG
  | MinRes_mixed_Poisson
  | MinRes_Babuska

fun experiment_solve ::
  "'a arithmetic \<Rightarrow> 'a block_iterative \<Rightarrow> notebook_cell \<Rightarrow> 'a mat \<Rightarrow> 'a vec \<Rightarrow> 'a mat \<Rightarrow> 'a vec \<Rightarrow>
     error + 'a vec \<times> int" where
  "experiment_solve ar ext Richardson_Poisson A b B x =
     apply_solver ext \<lparr>solver = ''Richardson'', sc_A = A,
       sc_precond = mat_scale ar (flit ar (5 / 10)) B,
       sc_initial_guess = Some x, sc_tolerance = flit ar (1 / 10000), sc_maxiter = None, sc_b = b\<rparr>"
| "experiment_solve ar ext Jacobi_Poisson A b B x =
     and_then (Jacobi ar A) (\<lambda>B.
     apply_solver ext \<lparr>solver = ''Richardson'', sc_A = A,
       sc_precond = mat_scale ar (fdiv ar (flit ar 2) (flit ar 3)) B,
       sc_initial_guess = Some x, sc_tolerance = flit ar (1 / 10000), sc_maxiter = None, sc_b = b\<rparr>)"
| "experiment_solve ar ext Jacobi_projection A b B x =
     and_then (Jacobi ar A) (\<lambda>B.
     apply_solver ext \<lparr>solver = ''Richardson'', sc_A = A,
       sc_precond = mat_scale ar (fdiv ar (flit ar 2) (flit ar 3)) B,
       sc_initial_guess = Some x, sc_tolerance = flit ar (1 / 10000), sc_maxiter = Some 10000,
       sc_b = b\<rparr>)"
| "experiment_solve ar ext SteepestDescent_Poisson A b B x =
     (case steepest_descent ar [Mat A, Vec x, Vec b, Mat B] 0 1 2 3 (flit ar (1 / 10000)) 200 of
        (s, Inl e) \<Rightarrow> Inl e
      | (s, Inr niters) \<Rightarrow> and_then (get_vec s 1) (\<lambda>xv. Inr (xv, niters)))"
| "experiment_solve ar ext ConjGrad_Poisson A b B x =
     apply_solver ext \<lparr>solver = ''ConjGrad'', sc_A = A, sc_precond = B,
       sc_initial_guess = Some x, sc_tolerance = flit ar (1 / 10000), sc_maxiter = None, sc_b = b\<rparr>"
| "experiment_solve ar ext Richardson_convection_diffusion A b B x =
     apply_solver ext \<lparr>solver = ''Richardson'', sc_A = A,
       sc_precond = mat_scale ar (flit ar (8 / 10)) B,
       sc_initial_guess = Some x, sc_tolerance = flit ar (1 / 10000), sc_maxiter = None, sc_b = b\<rparr>"
| "experiment_solve ar ext LGMRES_Galerkin A b B x =
     apply_solver ext \<lparr>solver = ''LGMRES'', sc_A = A, sc_precond = B,
       sc_initial_guess = Some x, sc_tolerance = flit ar (1 / 1000000), sc_maxiter = None, sc_b = b\<rparr>"
| "experiment_solve ar ext LGMRES_SUPG A b B x =
     apply_solver ext \<lparr>solver = ''LGMRES'', sc_A = A, sc_precond = B,
       sc_initial_guess = Some x, sc_tolerance = flit ar (1 / 10000), sc_maxiter = None, sc_b = b\<rparr>"
| "experiment_solve ar ext MinRes_mixed_Poisson A b B x =
     apply_solver ext \<lparr>solver = ''MinRes'', sc_A = A, sc_precond = B,
       sc_initial_guess = Some x, sc_tolerance = flit ar (1 / 10000000000), sc_maxiter = None,
       sc_b = b\<rparr>"
| "experiment_solve ar ext MinRes_Babuska A b B x =
     apply_solver ext \<lparr>solver = ''MinRes'', sc_A = A, sc_precond = B,
       sc_initial_guess = None, sc_tolerance = flit ar (1 / 10000000000), sc_maxiter = Some 300,
       sc_b = b\<rparr>"

text \<open>
  Two external libraries to run the experiments on: one in which every iterative solver
  raises, and one in which only \<open>MinRes\<close> answers.
\<close>

definition no_solver :: "real block_iterative" where
  "no_solver c = Inl LibraryError"

definition only_MinRes :: "real block_iterative" where
  "only_MinRes c = (if solver c = ''MinRes'' then Inr (sc_b c, [1, 0]) else Inl LibraryError)"

section \<open>The build file\<close>

text \<open>
  \<^verbatim>\<open>
  .PHONY: all clean

  all: precond.pdf coupled.pdf

  precond.pdf: precond.tex p_intro.tex p_lax_milgram.tex
  	latexmk -pdfps -pdflatex="pdflatex --shell-escape %O %S" $<

  coupled.pdf: coupled.tex
  	latexmk -pdfps -pdflatex="pdflatex --shell-escape %O %S" $<

  view:
  	evince precond.pdf &
  	# evince coupled.pdf &

  clean:
  	latexmk -C
  \<close>
  The file is a list of rules. The double quote of the recipes is the character
  \<open>0x22\<close>.
\<close>

record rule =
  target :: string
  prerequisites :: "string list"
  recipe :: "string list"

definition latexmk_recipe :: string where
  "latexmk_recipe =
     ''latexmk -pdfps -pdflatex='' @ [CHR 0x22] @ ''pdflatex --shell-escape %O %S'' @ [CHR 0x22]
       @ '' $<''"

definition Makefile :: "rule list" where
  "Makefile =
     [\<lparr>target = ''.PHONY'', prerequisites = [''all'', ''clean''], recipe = []\<rparr>,
      \<lparr>target = ''all'', prerequisites = [''precond.pdf'', ''coupled.pdf''], recipe = []\<rparr>,
      \<lparr>target = ''precond.pdf'',
       prerequisites = [''precond.tex'', ''p_intro.tex'', ''p_lax_milgram.tex''],
       recipe = [latexmk_recipe]\<rparr>,
      \<lparr>target = ''coupled.pdf'', prerequisites = [''coupled.tex''],
       recipe = [latexmk_recipe]\<rparr>,
      \<lparr>target = ''view'', prerequisites = [],
       recipe = [''evince precond.pdf &'', ''# evince coupled.pdf &'']\<rparr>,
      \<lparr>target = ''clean'', prerequisites = [], recipe = [''latexmk -C'']\<rparr>]"

text \<open>
  What \<open>make\<close> does with such a file. The state is the modification time of the files
  that exist, a clock, and the commands run so far. The goal of a plain \<open>make\<close> is the
  first target that does not begin with a dot; the prerequisites of \<open>.PHONY\<close> are not
  files. To bring a target up to date \<open>make\<close> first brings its prerequisites up to date,
  in order, and then runs the recipe when the target is phony, or missing, or older
  than a prerequisite, with \<open>$<\<close> standing for the first prerequisite. A target with no
  rule must exist. \<open>make\<close> hands each line of a recipe to the shell, which is a
  parameter of the model: for a command line, the files and the time it answers with
  the files as the command leaves them, or with nothing when the command exits with a
  status that is not zero. \<open>make\<close> stops at the first command that fails. The recursion is
  bounded by a depth; on a file without circular rules a depth above the longest chain
  of rules is enough.
\<close>

type_synonym files = "string \<Rightarrow> nat option"

type_synonym shell = "string \<Rightarrow> files \<Rightarrow> nat \<Rightarrow> files option"

record make_state =
  mtime :: files
  clock :: nat
  commands :: "string list"

datatype outcome = Done make_state | NoRuleToMakeTarget string | RecipeFailed string | TooDeep

definition default_goal :: "rule list \<Rightarrow> string option" where
  "default_goal rules =
     map_option target (find (\<lambda>r. take 1 (target r) \<noteq> ''.'') rules)"

definition phony :: "rule list \<Rightarrow> string list" where
  "phony rules = concat (map prerequisites (filter (\<lambda>r. target r = ''.PHONY'') rules))"

definition newer :: "make_state \<Rightarrow> string \<Rightarrow> string \<Rightarrow> bool" where
  \<comment> \<open>\<open>p\<close> is newer than \<open>t\<close>, or is not a file\<close>
  "newer st p t =
     (case (mtime st p, mtime st t) of
        (Some a, Some b) \<Rightarrow> b < a
      | _ \<Rightarrow> True)"

definition must_remake :: "rule list \<Rightarrow> make_state \<Rightarrow> rule \<Rightarrow> bool" where
  "must_remake rules st r \<longleftrightarrow>
     target r \<in> set (phony rules) \<or> mtime st (target r) = None \<or>
     (\<exists>p \<in> set (prerequisites r). newer st p (target r))"

definition expand :: "rule \<Rightarrow> string \<Rightarrow> string" where
  "expand r line = replace ''$<'' (case prerequisites r of [] \<Rightarrow> [] | p # _ \<Rightarrow> p) line"

fun run_lines :: "shell \<Rightarrow> string list \<Rightarrow> make_state \<Rightarrow> outcome" where
  "run_lines sh [] st = Done st"
| "run_lines sh (c # cs) st =
     (case sh c (mtime st) (clock st) of
        None \<Rightarrow> RecipeFailed c
      | Some written \<Rightarrow>
          run_lines sh cs \<lparr>mtime = written, clock = Suc (clock st), commands = commands st @ [c]\<rparr>)"

definition run_recipe :: "shell \<Rightarrow> rule \<Rightarrow> make_state \<Rightarrow> outcome" where
  "run_recipe sh r st = run_lines sh (map (expand r) (recipe r)) st"

fun update :: "nat \<Rightarrow> shell \<Rightarrow> rule list \<Rightarrow> make_state \<Rightarrow> string \<Rightarrow> outcome"
  and update_all :: "nat \<Rightarrow> shell \<Rightarrow> rule list \<Rightarrow> make_state \<Rightarrow> string list \<Rightarrow> outcome" where
  "update 0 sh rules st t = TooDeep"
| "update (Suc depth) sh rules st t =
     (case find (\<lambda>r. target r = t) rules of
        None \<Rightarrow> (if mtime st t = None then NoRuleToMakeTarget t else Done st)
      | Some r \<Rightarrow>
          (case update_all depth sh rules st (prerequisites r) of
             Done st' \<Rightarrow>
               if must_remake rules st' r then run_recipe sh r st' else Done st'
           | failure \<Rightarrow> failure))"
| "update_all depth sh rules st [] = Done st"
| "update_all depth sh rules st (p # ps) =
     (case update depth sh rules st p of
        Done st' \<Rightarrow> update_all depth sh rules st' ps
      | failure \<Rightarrow> failure)"

definition make :: "nat \<Rightarrow> shell \<Rightarrow> rule list \<Rightarrow> make_state \<Rightarrow> outcome" where
  "make depth sh rules st =
     (case default_goal rules of
        None \<Rightarrow> Done st
      | Some goal \<Rightarrow> update depth sh rules st goal)"


text \<open>
  The command line that the recipe of the two documents becomes for a source file, and
  the words the shell makes of a command line: it splits at the blanks outside double
  quotes and drops the quotes.
\<close>

definition latexmk_command :: "string \<Rightarrow> string" where
  "latexmk_command src =
     ''latexmk -pdfps -pdflatex='' @ [CHR 0x22] @ ''pdflatex --shell-escape %O %S'' @ [CHR 0x22]
       @ '' '' @ src"






definition failing_shell :: shell where
  "failing_shell command present now = None"

definition fresh_checkout :: make_state where
  "fresh_checkout =
     \<lparr>mtime = map_of [(''precond.tex'', 1), (''p_intro.tex'', 2), (''p_lax_milgram.tex'', 3),
                       (''coupled.tex'', 4)],
      clock = 5, commands = []\<rparr>"


section \<open>Properties of \<open>steepest_descent\<close>\<close>

subsection \<open>Reading and writing the store\<close>

lemma get_vec_upd_same: "x < length s \<Longrightarrow> get_vec (s[x := Vec v]) x = Inr v"
  by (simp add: get_vec_def)

lemma get_vec_upd_other: "a \<noteq> x \<Longrightarrow> get_vec (s[x := Vec v]) a = get_vec s a"
  by (simp add: get_vec_def)

lemma get_mat_upd: "get_vec s x = Inr xv \<Longrightarrow> get_mat s a = Inr M \<Longrightarrow> get_mat (s[x := Vec v]) a = Inr M"
  by (cases "a = x") (auto simp add: get_vec_def get_mat_def split: if_splits obj.splits)


lemma square_system_upd:
  assumes "square_system s A x b B n" "length v = n"
  shows "square_system (s[x := Vec v]) A x b B n"
proof -
  from assms(1) obtain Am Bm xv bv where g: "get_mat s A = Inr Am" "get_mat s B = Inr Bm"
     "get_vec s x = Inr xv" "get_vec s b = Inr bv"
    by (auto simp: square_system_def split: sum.splits)
  have xl: "x < length s" using g(3) by (auto simp: get_vec_def split: if_splits)
  have "get_vec (s[x := Vec v]) b = (if b = x then Inr v else Inr bv)"
    using g(4) xl by (simp add: get_vec_upd_same get_vec_upd_other)
  then show ?thesis using assms g xl
    by (auto simp: square_system_def get_mat_upd[OF g(3)] get_vec_upd_same)
qed

lemma square_residual:
  assumes "square_system s A x b B n"
  shows "\<exists>r. residual ar s A x b = Inr r \<and> length r = n"
  using assms
  by (auto simp: square_system_def residual_def and_then_def mat_vec_def vec_sub_def split: sum.splits)

lemma residual_error_eq: "residual_error ar r = Inr (fsqrt ar (fdot ar r r))"
  by (simp add: residual_error_def vec_inner_def and_then_def)

subsection \<open>One pass of the loop\<close>

lemma sd_products_square:
  assumes "square_system s A x b B n" "length r = n"
  shows "\<exists>p rp App. sd_products ar s A B r = Inr (p, rp, App) \<and> length p = n"
proof -
  from assms(1) obtain Am Bm where g: "get_mat s A = Inr Am" "get_mat s B = Inr Bm"
     and l: "length Am = n" "\<forall>row \<in> set Am. length row = n" "length Bm = n"
       "\<forall>row \<in> set Bm. length row = n"
    by (auto simp: square_system_def split: sum.splits)
  show ?thesis using g l assms(2)
    by (simp add: sd_products_def and_then_def mat_vec_def vec_inner_def)
qed

lemma sd_update_square:
  assumes "square_system s A x b B n" "sd_products ar s A B r = Inr (p, rp, App)" "length p = n"
  shows "(is_zero ar App \<longrightarrow> sd_update ar s A x B r = Inl ZeroDivisionError) \<and>
     (\<not> is_zero ar App \<longrightarrow> (\<exists>xv'. sd_update ar s A x B r = Inr xv' \<and> length xv' = n))"
proof -
  from assms(1) obtain xv where g: "get_vec s x = Inr xv" and l: "length xv = n"
    by (auto simp: square_system_def split: sum.splits)
  show ?thesis using g l assms(2,3)
    by (simp add: sd_update_def and_then_def py_div_def vec_iadd_def vec_scale_def)
qed

lemma sd_body_square:
  assumes "square_system s A x b B n" "sd_products ar s A B r = Inr (p, rp, App)" "length p = n"
  shows "(is_zero ar App \<longrightarrow> sd_body ar s A x b B r = (s, Inl ZeroDivisionError)) \<and>
     (\<not> is_zero ar App \<longrightarrow>
        (\<exists>s' r' err'. sd_body ar s A x b B r = (s', Inr (r', err')) \<and>
           square_system s' A x b B n))"
proof (cases "is_zero ar App")
  case True
  then show ?thesis
    using sd_update_square[OF assms] by (simp add: sd_body_def)
next
  case False
  then obtain xv' where x': "sd_update ar s A x B r = Inr xv'" "length xv' = n"
    using sd_update_square[OF assms] by blast
  have sq: "square_system (s[x := Vec xv']) A x b B n"
    using square_system_upd[OF assms(1) x'(2)] .
  from square_residual[OF sq, of ar] obtain r' where
    r': "residual ar (s[x := Vec xv']) A x b = Inr r'" by blast
  have "sd_body ar s A x b B r = (s[x := Vec xv'], Inr (r', fsqrt ar (fdot ar r' r')))"
    using x' r' by (simp add: sd_body_def and_then_def residual_error_eq)
  then show ?thesis using sq False by blast
qed

lemma sd_body_success:
  assumes "sd_body ar s A x b B r = (s', Inr (r', err'))"
  shows "residual ar s' A x b = Inr r' \<and> residual_error ar r' = Inr err'"
  using assms
  by (auto simp: sd_body_def Let_def and_then_def split: sum.splits)


subsection \<open>The loop\<close>

lemma sd_loop_stop:
  "\<not> (fgt ar (sd_error l) tolerance \<and> sd_iter l < maxiter) \<Longrightarrow>
   sd_loop ar A x b B tolerance maxiter s l = (s, Inr l)"
  by (subst sd_loop.simps) auto

lemma sd_loop_raise:
  "fgt ar (sd_error l) tolerance \<Longrightarrow> sd_iter l < maxiter \<Longrightarrow>
   sd_body ar s A x b B (sd_r l) = (s', Inl e) \<Longrightarrow>
   sd_loop ar A x b B tolerance maxiter s l = (s', Inl e)"
  by (subst sd_loop.simps) simp

lemma sd_loop_step:
  "fgt ar (sd_error l) tolerance \<Longrightarrow> sd_iter l < maxiter \<Longrightarrow>
   sd_body ar s A x b B (sd_r l) = (s', Inr (r', err')) \<Longrightarrow>
   sd_loop ar A x b B tolerance maxiter s l =
   sd_loop ar A x b B tolerance maxiter s' \<lparr>sd_r = r', sd_error = err', sd_iter = sd_iter l + 1\<rparr>"
  by (subst sd_loop.simps) simp


lemma sd_body_raise_square:
  assumes sq: "square_system s A x b B n" and res: "residual ar s A x b = Inr r"
    and body: "sd_body ar s A x b B r = (s', Inl e)"
  shows "s' = s \<and> e = ZeroDivisionError \<and>
     (\<exists>p rp App. sd_products ar s A B r = Inr (p, rp, App) \<and> is_zero ar App)"
proof -
  have len: "length r = n"
    using res square_residual[OF sq, of ar] by simp
  from sd_products_square[OF sq len, of ar] obtain p rp App where
    pr: "sd_products ar s A B r = Inr (p, rp, App)" "length p = n" by blast
  note cases = sd_body_square[OF sq pr]
  have z: "is_zero ar App"
  proof (rule ccontr)
    assume "\<not> is_zero ar App"
    with cases obtain s2 r2 e2 where "sd_body ar s A x b B r = (s2, Inr (r2, e2))"
      by blast
    with body show False by simp
  qed
  with cases have "sd_body ar s A x b B r = (s, Inl ZeroDivisionError)"
    by blast
  with body have "s' = s" "e = ZeroDivisionError"
    by simp_all
  with z pr(1) show ?thesis by blast
qed

lemma sd_body_step_square:
  assumes sq: "square_system s A x b B n" and res: "residual ar s A x b = Inr r"
    and body: "sd_body ar s A x b B r = (s', Inr (r', err'))"
  shows "square_system s' A x b B n"
proof -
  have len: "length r = n"
    using res square_residual[OF sq, of ar] by simp
  from sd_products_square[OF sq len, of ar] obtain p rp App where
    pr: "sd_products ar s A B r = Inr (p, rp, App)" "length p = n" by blast
  note cases = sd_body_square[OF sq pr]
  have "\<not> is_zero ar App"
  proof
    assume "is_zero ar App"
    with cases have "sd_body ar s A x b B r = (s, Inl ZeroDivisionError)"
      by blast
    with body show False by simp
  qed
  with cases obtain s2 r2 e2 where "sd_body ar s A x b B r = (s2, Inr (r2, e2))"
    "square_system s2 A x b B n"
    by blast
  with body show ?thesis by simp
qed

lemma sd_loop_result:
  assumes "sd_invariant ar s A x b maxiter l"
  shows "(\<exists>s' e. sd_loop ar A x b B tolerance maxiter s l = (s', Inl e) \<and>
            (square_system s A x b B n \<longrightarrow> e = ZeroDivisionError \<and>
               (\<exists>r p rp App. residual ar s' A x b = Inr r \<and>
                  sd_products ar s' A B r = Inr (p, rp, App) \<and> is_zero ar App))) \<or>
         (\<exists>s' l'. sd_loop ar A x b B tolerance maxiter s l = (s', Inr l') \<and>
            sd_invariant ar s' A x b maxiter l' \<and>
            (\<not> fgt ar (sd_error l') tolerance \<or> sd_iter l' = maxiter))"
  using assms
proof (induction ar A x b B tolerance maxiter s l rule: sd_loop.induct)
  case (1 ar A x b B tolerance maxiter s l)
  note inv = "1.prems"
  have res: "residual ar s A x b = Inr (sd_r l)"
    using inv by (simp add: sd_invariant_def)
  show ?case
  proof (cases "fgt ar (sd_error l) tolerance \<and> sd_iter l < maxiter")
    case False
    have stop: "sd_loop ar A x b B tolerance maxiter s l = (s, Inr l)"
      using False by (simp add: sd_loop_stop)
    have fin: "\<not> fgt ar (sd_error l) tolerance \<or> sd_iter l = maxiter"
    proof (cases "fgt ar (sd_error l) tolerance")
      case True
      then have "\<not> sd_iter l < maxiter" using False by simp
      moreover have "sd_iter l \<le> maxiter" using inv by (simp add: sd_invariant_def)
      ultimately show ?thesis by simp
    next
      case False
      then show ?thesis by simp
    qed
    show ?thesis
      by (intro disjI2 exI[of _ s] exI[of _ l] conjI stop inv fin)
  next
    case True
    obtain s' res' where body: "sd_body ar s A x b B (sd_r l) = (s', res')"
      by (cases "sd_body ar s A x b B (sd_r l)")
    show ?thesis
    proof (cases res')
      case (Inl e)
      have body': "sd_body ar s A x b B (sd_r l) = (s', Inl e)"
        using body Inl by simp
      have loop: "sd_loop ar A x b B tolerance maxiter s l = (s', Inl e)"
        using True body' by (simp add: sd_loop_raise)
      have "square_system s A x b B n \<longrightarrow> e = ZeroDivisionError \<and>
               (\<exists>r p rp App. residual ar s' A x b = Inr r \<and>
                  sd_products ar s' A B r = Inr (p, rp, App) \<and> is_zero ar App)"
      proof
        assume sq: "square_system s A x b B n"
        from sd_body_raise_square[OF sq res body'] res
        show "e = ZeroDivisionError \<and>
               (\<exists>r p rp App. residual ar s' A x b = Inr r \<and>
                  sd_products ar s' A B r = Inr (p, rp, App) \<and> is_zero ar App)"
          by blast
      qed
      with loop show ?thesis by blast
    next
      case (Inr v)
      obtain r' err' where v: "v = (r', err')" by (cases v)
      let ?l' = "\<lparr>sd_r = r', sd_error = err', sd_iter = sd_iter l + 1\<rparr>"
      have body': "sd_body ar s A x b B (sd_r l) = (s', Inr (r', err'))"
        using body Inr v by simp
      have eq: "sd_loop ar A x b B tolerance maxiter s l = sd_loop ar A x b B tolerance maxiter s' ?l'"
        using True body' by (simp add: sd_loop_step)
      have inv': "sd_invariant ar s' A x b maxiter ?l'"
        using sd_body_success[OF body'] inv True by (simp add: sd_invariant_def)
      have sq': "square_system s A x b B n \<Longrightarrow> square_system s' A x b B n"
        using sd_body_step_square[OF _ res body'] by blast
      have IH: "(\<exists>s'' e. sd_loop ar A x b B tolerance maxiter s' ?l' = (s'', Inl e) \<and>
            (square_system s' A x b B n \<longrightarrow> e = ZeroDivisionError \<and>
               (\<exists>r p rp App. residual ar s'' A x b = Inr r \<and>
                  sd_products ar s'' A B r = Inr (p, rp, App) \<and> is_zero ar App))) \<or>
         (\<exists>s'' l'. sd_loop ar A x b B tolerance maxiter s' ?l' = (s'', Inr l') \<and>
            sd_invariant ar s'' A x b maxiter l' \<and>
            (\<not> fgt ar (sd_error l') tolerance \<or> sd_iter l' = maxiter))"
        by (rule "1.IH"[OF True body[symmetric] Inr v[symmetric] inv'])
      show ?thesis
        unfolding eq using IH sq' by blast
    qed
  qed
qed

subsection \<open>Runs in exact arithmetic\<close>

lemma exact_simps [simp]:
  "flit exact a = a" "fadd exact a c = a + c" "fsub exact a c = a - c" "fmul exact a c = a * c"
  "fdiv exact a c = a / c" "fsqrt exact a = sqrt a" "fgt exact a c \<longleftrightarrow> c < a"
  "is_zero exact a \<longleftrightarrow> a = 0"
  "fdot exact u v = sum_list (map2 (\<lambda>a b. a * b) u v)"
  "frow exact u v = sum_list (map2 (\<lambda>a b. a * b) u v)"
  by (simp_all add: exact_def)

lemmas sd_defs =
  sd_body_def sd_update_def sd_products_def residual_def residual_error_def and_then_def
  get_mat_def get_vec_def mat_vec_def vec_sub_def vec_inner_def vec_iadd_def vec_scale_def
  py_div_def

text \<open>
  A symmetric positive definite system with the identity as preconditioner:
  \<open>A = diag(1, 16)\<close>, \<open>b = (4, 3)\<close>, \<open>x = (0, 0)\<close>, tolerance \<open>1/2\<close>, \<open>maxiter = 3\<close>. The numbers
  of the first pass are doubles, and no operation of it rounds.
\<close>

lemma spd_square:
  "square_system [Mat [[1, 0], [0, 16]], Vec [0, 0], Vec [4, 3], Mat [[1, 0], [0, 1::real]]] 0 1 2 3 2"
  by (simp add: square_system_def get_mat_def get_vec_def)

lemma spd_residual:
  "residual exact [Mat [[1, 0], [0, 16]], Vec [0, 0], Vec [4, 3], Mat [[1, 0], [0, 1]]] 0 1 2 = Inr [4, 3]"
  by (simp add: sd_defs)

lemma spd_products:
  "sd_products exact [Mat [[1, 0], [0, 16]], Vec [0, 0], Vec [4, 3], Mat [[1, 0], [0, 1]]] 0 3 [4, 3] =
     Inr ([4, 3], 25, 160)"
  by (simp add: sd_defs)

lemma sqrt_values:
  "sqrt 25 = 5" "sqrt (2025 / 64) = 45 / 8" "sqrt (164025 / 11236) = 405 / 106"
  "sqrt (13286025 / 719104) = 3645 / 848"
  by (rule real_sqrt_unique, simp add: power2_eq_square, simp)+

lemma spd_body_1:
  "sd_body exact [Mat [[1, 0], [0, 16]], Vec [0, 0], Vec [4, 3], Mat [[1, 0], [0, 1]]] 0 1 2 3 [4, 3] =
     ([Mat [[1, 0], [0, 16]], Vec [5 / 8, 15 / 32], Vec [4, 3], Mat [[1, 0], [0, 1]]],
      Inr ([27 / 8, - 9 / 2], 45 / 8))"
  by (simp add: sd_defs sqrt_values)

lemma spd_body_2:
  "sd_body exact [Mat [[1, 0], [0, 16]], Vec [5 / 8, 15 / 32], Vec [4, 3], Mat [[1, 0], [0, 1]]] 0 1 2 3
       [27 / 8, - 9 / 2] =
     ([Mat [[1, 0], [0, 16]], Vec [50 / 53, 75 / 1696], Vec [4, 3], Mat [[1, 0], [0, 1]]],
      Inr ([162 / 53, 243 / 106], 405 / 106))"
  by (simp add: sd_defs sqrt_values)

lemma spd_body_3:
  "sd_body exact [Mat [[1, 0], [0, 16]], Vec [50 / 53, 75 / 1696], Vec [4, 3], Mat [[1, 0], [0, 1]]] 0 1 2 3
       [162 / 53, 243 / 106] =
     ([Mat [[1, 0], [0, 16]], Vec [1205 / 848, 1365 / 3392], Vec [4, 3], Mat [[1, 0], [0, 1]]],
      Inr ([2187 / 848, - 729 / 212], 3645 / 848))"
  by (simp add: sd_defs sqrt_values)

lemma spd_run:
  "sd_run exact [Mat [[1, 0], [0, 16]], Vec [0, 0], Vec [4, 3], Mat [[1, 0], [0, 1]]] 0 1 2 3 (1 / 2) 3 =
     ([Mat [[1, 0], [0, 16]], Vec [1205 / 848, 1365 / 3392], Vec [4, 3], Mat [[1, 0], [0, 1]]],
      Inr \<lparr>sd_r = [2187 / 848, - 729 / 212], sd_error = 3645 / 848, sd_iter = 3\<rparr>)"
proof -
  let ?s0 = "[Mat [[1, 0], [0, 16]], Vec [0, 0], Vec [4, 3], Mat [[1, 0], [0, 1::real]]]"
  let ?s1 = "[Mat [[1, 0], [0, 16]], Vec [5 / 8, 15 / 32], Vec [4, 3], Mat [[1, 0], [0, 1::real]]]"
  let ?s2 = "[Mat [[1, 0], [0, 16]], Vec [50 / 53, 75 / 1696], Vec [4, 3], Mat [[1, 0], [0, 1::real]]]"
  let ?s3 = "[Mat [[1, 0], [0, 16]], Vec [1205 / 848, 1365 / 3392], Vec [4, 3], Mat [[1, 0], [0, 1::real]]]"
  let ?l0 = "\<lparr>sd_r = [4, 3], sd_error = 5, sd_iter = 0\<rparr> :: real sd_locals"
  let ?l1 = "\<lparr>sd_r = [27 / 8, - 9 / 2], sd_error = 45 / 8, sd_iter = 1\<rparr> :: real sd_locals"
  let ?l2 = "\<lparr>sd_r = [162 / 53, 243 / 106], sd_error = 405 / 106, sd_iter = 2\<rparr> :: real sd_locals"
  let ?l3 = "\<lparr>sd_r = [2187 / 848, - 729 / 212], sd_error = 3645 / 848, sd_iter = 3\<rparr> :: real sd_locals"
  have "sd_loop exact 0 1 2 3 (1 / 2) 3 ?s0 ?l0 = sd_loop exact 0 1 2 3 (1 / 2) 3 ?s1 ?l1"
    by (subst sd_loop.simps) (use spd_body_1 in simp)
  also have "\<dots> = sd_loop exact 0 1 2 3 (1 / 2) 3 ?s2 ?l2"
    by (subst sd_loop.simps) (use spd_body_2 in simp)
  also have "\<dots> = sd_loop exact 0 1 2 3 (1 / 2) 3 ?s3 ?l3"
    by (subst sd_loop.simps) (use spd_body_3 in simp)
  also have "\<dots> = (?s3, Inr ?l3)"
    by (rule sd_loop_stop) simp
  finally show ?thesis
    using spd_residual by (simp add: sd_run_def and_then_def residual_error_eq sqrt_values)
qed

lemma spd_history:
  "error_history exact [Mat [[1, 0], [0, 16]], Vec [0, 0], Vec [4, 3], Mat [[1, 0], [0, 1]]] 0 1 2 3 (1 / 2) 3 =
     [5, 45 / 8, 405 / 106, 3645 / 848]"
proof -
  let ?s0 = "[Mat [[1, 0], [0, 16]], Vec [0, 0], Vec [4, 3], Mat [[1, 0], [0, 1::real]]]"
  let ?s1 = "[Mat [[1, 0], [0, 16]], Vec [5 / 8, 15 / 32], Vec [4, 3], Mat [[1, 0], [0, 1::real]]]"
  let ?s2 = "[Mat [[1, 0], [0, 16]], Vec [50 / 53, 75 / 1696], Vec [4, 3], Mat [[1, 0], [0, 1::real]]]"
  let ?s3 = "[Mat [[1, 0], [0, 16]], Vec [1205 / 848, 1365 / 3392], Vec [4, 3], Mat [[1, 0], [0, 1::real]]]"
  let ?l0 = "\<lparr>sd_r = [4, 3], sd_error = 5, sd_iter = 0\<rparr> :: real sd_locals"
  let ?l1 = "\<lparr>sd_r = [27 / 8, - 9 / 2], sd_error = 45 / 8, sd_iter = 1\<rparr> :: real sd_locals"
  let ?l2 = "\<lparr>sd_r = [162 / 53, 243 / 106], sd_error = 405 / 106, sd_iter = 2\<rparr> :: real sd_locals"
  let ?l3 = "\<lparr>sd_r = [2187 / 848, - 729 / 212], sd_error = 3645 / 848, sd_iter = 3\<rparr> :: real sd_locals"
  have 3: "sd_errors exact 0 1 2 3 (1 / 2) 3 ?s3 ?l3 = [3645 / 848]"
    by (subst sd_errors.simps) simp
  have 2: "sd_errors exact 0 1 2 3 (1 / 2) 3 ?s2 ?l2 = [405 / 106, 3645 / 848]"
    by (subst sd_errors.simps) (use spd_body_3 3 in simp)
  have 1: "sd_errors exact 0 1 2 3 (1 / 2) 3 ?s1 ?l1 = [45 / 8, 405 / 106, 3645 / 848]"
    by (subst sd_errors.simps) (use spd_body_2 2 in simp)
  have 0: "sd_errors exact 0 1 2 3 (1 / 2) 3 ?s0 ?l0 = [5, 45 / 8, 405 / 106, 3645 / 848]"
    by (subst sd_errors.simps) (use spd_body_1 1 in simp)
  show ?thesis
    using spd_residual 0 by (simp add: error_history_def and_then_def residual_error_eq sqrt_values)
qed

text \<open>
  A symmetric, invertible, indefinite system: \<open>A = ((0, 1), (1, 0))\<close>, \<open>b = (5, 0)\<close>,
  \<open>x = (0, 0)\<close>, the identity as preconditioner, a tolerance of at most \<open>1\<close>. The
  residual error is \<open>5\<close>, and the first search direction \<open>p = (5, 0)\<close> has
  \<open>Ap.inner(p) = 0\<close>.
\<close>

lemma indefinite_run:
  assumes "tol \<le> 1"
  shows "sd_run exact [Mat [[0, 1], [1, 0]], Vec [0, 0], Vec [5, 0], Mat [[1, 0], [0, 1]]] 0 1 2 3 tol 200 =
     ([Mat [[0, 1], [1, 0]], Vec [0, 0], Vec [5, 0], Mat [[1, 0], [0, 1]]], Inl ZeroDivisionError)"
proof -
  let ?s = "[Mat [[0, 1], [1, 0]], Vec [0, 0], Vec [5, 0], Mat [[1, 0], [0, 1::real]]]"
  have res: "residual exact ?s 0 1 2 = Inr [5, 0]"
    by (simp add: sd_defs)
  have body: "sd_body exact ?s 0 1 2 3 [5, 0] = (?s, Inl ZeroDivisionError)"
    by (simp add: sd_defs)
  have gt: "tol < 5"
    using assms by simp
  have "sd_loop exact 0 1 2 3 tol 200 ?s \<lparr>sd_r = [5, 0], sd_error = 5, sd_iter = 0\<rparr> =
      (?s, Inl ZeroDivisionError)"
    using body gt by (intro sd_loop_raise) simp_all
  then show ?thesis
    using res by (simp add: sd_run_def and_then_def residual_error_eq sqrt_values)
qed



subsection \<open>Runs in double precision\<close>

lemma binary_exponent_numeral:
  "binary_exponent (numeral k) x =
     (if x < 1 then binary_exponent (pred_numeral k) (2 * x) - 1
      else if 2 \<le> x then binary_exponent (pred_numeral k) (x / 2) + 1
      else 0)"
  by (simp add: numeral_eq_Suc)

lemma binary64_fields:
  "flit binary64 a = round64 a" "fadd binary64 a c = round64 (a + c)"
  "fsub binary64 a c = round64 (a - c)" "fmul binary64 a c = round64 (a * c)"
  "fdiv binary64 a c = round64 (a / c)" "fsqrt binary64 a = round64 (sqrt a)"
  "fgt binary64 a c \<longleftrightarrow> c < a" "is_zero binary64 a \<longleftrightarrow> a = 0"
  "fdot binary64 u v = foldl (\<lambda>acc (a, b). round64 (acc + round64 (a * b))) 0 (zip u v)"
  "frow binary64 u v = foldl (\<lambda>acc (a, b). round64 (acc + round64 (a * b))) 0 (zip u v)"
  by (simp_all add: binary64_def)

lemmas round64_eval = round64_def round_half_even_def binary_exponent_numeral Let_def

text \<open>
  The indefinite system above, in double precision.
\<close>

lemma indefinite_run_binary64:
  "sd_run binary64 [Mat [[0, 1], [1, 0]], Vec [0, 0], Vec [5, 0], Mat [[1, 0], [0, 1]]] 0 1 2 3 1 200 =
     ([Mat [[0, 1], [1, 0]], Vec [0, 0], Vec [5, 0], Mat [[1, 0], [0, 1]]], Inl ZeroDivisionError)"
proof -
  let ?s = "[Mat [[0, 1], [1, 0]], Vec [0, 0], Vec [5, 0], Mat [[1, 0], [0, 1::real]]]"
  have res: "residual binary64 ?s 0 1 2 = Inr [5, 0]"
    by (simp add: sd_defs binary64_fields round64_eval)
  have err: "residual_error binary64 [5, 0] = Inr 5"
    by (simp add: sd_defs binary64_fields round64_eval sqrt_values)
  have body: "sd_body binary64 ?s 0 1 2 3 [5, 0] = (?s, Inl ZeroDivisionError)"
    by (simp add: sd_defs binary64_fields round64_eval)
  have "sd_loop binary64 0 1 2 3 1 200 ?s \<lparr>sd_r = [5, 0], sd_error = 5, sd_iter = 0\<rparr> =
      (?s, Inl ZeroDivisionError)"
    by (subst sd_loop.simps) (use body in \<open>simp add: binary64_fields\<close>)
  then show ?thesis
    using res err by (simp add: sd_run_def and_then_def)
qed

text \<open>
  The first pass on the symmetric positive definite system above, in double precision.
\<close>

lemma spd_first_pass_binary64:
  "error_history binary64 [Mat [[1, 0], [0, 16]], Vec [0, 0], Vec [4, 3], Mat [[1, 0], [0, 1]]] 0 1 2 3 (1 / 2) 1 =
     [5, 45 / 8]"
proof -
  let ?s0 = "[Mat [[1, 0], [0, 16]], Vec [0, 0], Vec [4, 3], Mat [[1, 0], [0, 1::real]]]"
  let ?s1 = "[Mat [[1, 0], [0, 16]], Vec [5 / 8, 15 / 32], Vec [4, 3], Mat [[1, 0], [0, 1::real]]]"
  have res: "residual binary64 ?s0 0 1 2 = Inr [4, 3]"
    by (simp add: sd_defs binary64_fields round64_eval)
  have err: "residual_error binary64 [4, 3] = Inr 5"
    by (simp add: sd_defs binary64_fields round64_eval sqrt_values)
  have upd: "sd_update binary64 ?s0 0 1 3 [4, 3] = Inr [5 / 8, 15 / 32]"
    by (simp add: sd_defs binary64_fields round64_eval)
  have res1: "residual binary64 ?s1 0 1 2 = Inr [27 / 8, - 9 / 2]"
    by (simp add: sd_defs binary64_fields round64_eval)
  have err1: "residual_error binary64 [27 / 8, - 9 / 2] = Inr (45 / 8)"
    by (simp add: sd_defs binary64_fields round64_eval sqrt_values)
  have body: "sd_body binary64 ?s0 0 1 2 3 [4, 3] = (?s1, Inr ([27 / 8, - 9 / 2], 45 / 8))"
    using upd res1 err1 by (simp add: sd_body_def and_then_def)
  have 1: "sd_errors binary64 0 1 2 3 (1 / 2) 1 ?s1
      \<lparr>sd_r = [27 / 8, - 9 / 2], sd_error = 45 / 8, sd_iter = 1\<rparr> = [45 / 8]"
    by (subst sd_errors.simps) simp
  have 0: "sd_errors binary64 0 1 2 3 (1 / 2) 1 ?s0 \<lparr>sd_r = [4, 3], sd_error = 5, sd_iter = 0\<rparr> =
      [5, 45 / 8]"
    by (subst sd_errors.simps) (use body 1 in \<open>simp add: binary64_fields\<close>)
  show ?thesis
    using res err 0 by (simp add: error_history_def and_then_def)
qed

subsection \<open>Termination and the iteration count\<close>

lemma steepest_descent_cases:
  assumes "0 \<le> maxiter"
  shows "(\<exists>s' e. steepest_descent ar s A x b B tolerance maxiter = (s', Inl e) \<and>
            (square_system s A x b B n \<longrightarrow> e = ZeroDivisionError \<and>
               (\<exists>r p rp App. residual ar s' A x b = Inr r \<and>
                  sd_products ar s' A B r = Inr (p, rp, App) \<and> is_zero ar App))) \<or>
          (\<exists>s' l. sd_run ar s A x b B tolerance maxiter = (s', Inr l) \<and>
            steepest_descent ar s A x b B tolerance maxiter = (s', Inr (sd_iter l)) \<and>
            0 \<le> sd_iter l \<and> sd_iter l \<le> maxiter \<and>
            residual ar s' A x b = Inr (sd_r l) \<and>
            residual_error ar (sd_r l) = Inr (sd_error l) \<and>
            sd_error l = fsqrt ar (fdot ar (sd_r l) (sd_r l)) \<and>
            (\<not> fgt ar (sd_error l) tolerance \<or> sd_iter l = maxiter))"
proof (cases "residual ar s A x b")
  case (Inl e)
  have run: "steepest_descent ar s A x b B tolerance maxiter = (s, Inl e)"
    using Inl by (simp add: steepest_descent_def sd_run_def and_then_def)
  have "\<not> square_system s A x b B n"
    using square_residual[of s A x b B n ar] Inl by auto
  then show ?thesis
    using run by (intro disjI1 exI[of _ s] exI[of _ e]) simp
next
  case (Inr r)
  let ?l = "\<lparr>sd_r = r, sd_error = fsqrt ar (fdot ar r r), sd_iter = 0\<rparr>"
  have run: "sd_run ar s A x b B tolerance maxiter = sd_loop ar A x b B tolerance maxiter s ?l"
    using Inr by (simp add: sd_run_def and_then_def residual_error_eq)
  have "sd_invariant ar s A x b maxiter ?l"
    using Inr assms by (simp add: sd_invariant_def residual_error_eq)
  from sd_loop_result[OF this, of B tolerance n]
  show ?thesis
  proof (elim disjE)
    assume "\<exists>s' e. sd_loop ar A x b B tolerance maxiter s ?l = (s', Inl e) \<and>
          (square_system s A x b B n \<longrightarrow> e = ZeroDivisionError \<and>
             (\<exists>r p rp App. residual ar s' A x b = Inr r \<and>
                sd_products ar s' A B r = Inr (p, rp, App) \<and> is_zero ar App))"
    then obtain s' e where loop: "sd_loop ar A x b B tolerance maxiter s ?l = (s', Inl e)"
      and sq: "square_system s A x b B n \<longrightarrow> e = ZeroDivisionError \<and>
             (\<exists>r p rp App. residual ar s' A x b = Inr r \<and>
                sd_products ar s' A B r = Inr (p, rp, App) \<and> is_zero ar App)"
      by (elim exE conjE)
    have "steepest_descent ar s A x b B tolerance maxiter = (s', Inl e)"
      using run loop by (simp add: steepest_descent_def)
    then show ?thesis
      using sq by (intro disjI1 exI[of _ s'] exI[of _ e] conjI)
  next
    assume "\<exists>s' l'. sd_loop ar A x b B tolerance maxiter s ?l = (s', Inr l') \<and>
          sd_invariant ar s' A x b maxiter l' \<and>
          (\<not> fgt ar (sd_error l') tolerance \<or> sd_iter l' = maxiter)"
    then obtain s' l' where loop: "sd_loop ar A x b B tolerance maxiter s ?l = (s', Inr l')"
      and inv: "sd_invariant ar s' A x b maxiter l'"
      and fin: "\<not> fgt ar (sd_error l') tolerance \<or> sd_iter l' = maxiter"
      by (elim exE conjE)
    have 1: "sd_run ar s A x b B tolerance maxiter = (s', Inr l')"
      using run loop by simp
    have 2: "steepest_descent ar s A x b B tolerance maxiter = (s', Inr (sd_iter l'))"
      using 1 by (simp add: steepest_descent_def)
    have 3: "0 \<le> sd_iter l'" "sd_iter l' \<le> maxiter" "residual ar s' A x b = Inr (sd_r l')"
      "residual_error ar (sd_r l') = Inr (sd_error l')"
      using inv by (simp_all add: sd_invariant_def)
    have 4: "sd_error l' = fsqrt ar (fdot ar (sd_r l') (sd_r l'))"
      using 3(4) by (simp add: residual_error_eq)
    show ?thesis
      by (rule disjI2, rule exI[of _ s'], rule exI[of _ l']) (use 1 2 3 4 fin in blast)
  qed
qed

text \<open>
  C1, as the code has it, in every floating-point arithmetic. \<open>sd_loop\<close> is a total
  function: the loop ends, after at most \<open>maxiter\<close> passes. For a natural number
  \<open>maxiter\<close> the call either raises or returns. If it raises on a square system of
  matching sizes, the exception is the \<open>ZeroDivisionError\<close> of \<open>r.inner(p)/Ap.inner(p)\<close>,
  and \<open>Ap.inner(p)\<close> is zero for the residual \<open>r\<close> of the \<open>x\<close> that the call leaves behind.
  If it returns, it returns \<open>iter\<close> with \<open>0 \<le> iter \<le> maxiter\<close>, \<open>error\<close> is
  \<open>sqrt(r.inner(r))\<close> for the residual \<open>r = b - A*x\<close> of the final \<open>x\<close>, and the comparison
  \<open>error > tolerance\<close> is false or \<open>iter = maxiter\<close>; the comparison is false when \<open>error\<close>
  is at most the tolerance and also when \<open>error\<close> is NaN. A pass over a square system
  raises exactly when \<open>Ap.inner(p)\<close> is zero: then it raises \<open>ZeroDivisionError\<close> and
  leaves \<open>x\<close> as it was, and otherwise it completes.
\<close>

theorem steepest_descent_bounded:
  assumes "0 \<le> maxiter"
  shows "((\<exists>s' e. steepest_descent ar s A x b B tolerance maxiter = (s', Inl e) \<and>
            (square_system s A x b B n \<longrightarrow> e = ZeroDivisionError \<and>
               (\<exists>r p rp App. residual ar s' A x b = Inr r \<and>
                  sd_products ar s' A B r = Inr (p, rp, App) \<and> is_zero ar App))) \<or>
          (\<exists>s' l. sd_run ar s A x b B tolerance maxiter = (s', Inr l) \<and>
            steepest_descent ar s A x b B tolerance maxiter = (s', Inr (sd_iter l)) \<and>
            0 \<le> sd_iter l \<and> sd_iter l \<le> maxiter \<and>
            residual ar s' A x b = Inr (sd_r l) \<and>
            residual_error ar (sd_r l) = Inr (sd_error l) \<and>
            sd_error l = fsqrt ar (fdot ar (sd_r l) (sd_r l)) \<and>
            (\<not> fgt ar (sd_error l) tolerance \<or> sd_iter l = maxiter))) \<and>
         (square_system s A x b B n \<and> residual ar s A x b = Inr r0 \<and>
          sd_products ar s A B r0 = Inr (p0, rp0, App0) \<longrightarrow>
            (is_zero ar App0 \<longrightarrow> sd_body ar s A x b B r0 = (s, Inl ZeroDivisionError)) \<and>
            (\<not> is_zero ar App0 \<longrightarrow>
               (\<exists>s' r' err'. sd_body ar s A x b B r0 = (s', Inr (r', err')))))"
proof (rule conjI)
  show "(\<exists>s' e. steepest_descent ar s A x b B tolerance maxiter = (s', Inl e) \<and>
            (square_system s A x b B n \<longrightarrow> e = ZeroDivisionError \<and>
               (\<exists>r p rp App. residual ar s' A x b = Inr r \<and>
                  sd_products ar s' A B r = Inr (p, rp, App) \<and> is_zero ar App))) \<or>
          (\<exists>s' l. sd_run ar s A x b B tolerance maxiter = (s', Inr l) \<and>
            steepest_descent ar s A x b B tolerance maxiter = (s', Inr (sd_iter l)) \<and>
            0 \<le> sd_iter l \<and> sd_iter l \<le> maxiter \<and>
            residual ar s' A x b = Inr (sd_r l) \<and>
            residual_error ar (sd_r l) = Inr (sd_error l) \<and>
            sd_error l = fsqrt ar (fdot ar (sd_r l) (sd_r l)) \<and>
            (\<not> fgt ar (sd_error l) tolerance \<or> sd_iter l = maxiter))"
    by (rule steepest_descent_cases[OF assms])
next
  show "square_system s A x b B n \<and> residual ar s A x b = Inr r0 \<and>
          sd_products ar s A B r0 = Inr (p0, rp0, App0) \<longrightarrow>
            (is_zero ar App0 \<longrightarrow> sd_body ar s A x b B r0 = (s, Inl ZeroDivisionError)) \<and>
            (\<not> is_zero ar App0 \<longrightarrow>
               (\<exists>s' r' err'. sd_body ar s A x b B r0 = (s', Inr (r', err'))))"
  proof (intro impI, elim conjE)
    assume sq: "square_system s A x b B n" and res: "residual ar s A x b = Inr r0"
      and pr: "sd_products ar s A B r0 = Inr (p0, rp0, App0)"
    have len: "length r0 = n"
      using res square_residual[OF sq, of ar] by simp
    have "length p0 = n"
      using sd_products_square[OF sq len, of ar] pr by simp
    from sd_body_square[OF sq pr this]
    show "(is_zero ar App0 \<longrightarrow> sd_body ar s A x b B r0 = (s, Inl ZeroDivisionError)) \<and>
            (\<not> is_zero ar App0 \<longrightarrow>
               (\<exists>s' r' err'. sd_body ar s A x b B r0 = (s', Inr (r', err'))))"
      by blast
  qed
qed

theorem steepest_descent_bounded_witness:
  "(0::int) \<le> 3 \<and>
   square_system [Mat [[1, 0], [0, 16]], Vec [0, 0], Vec [4, 3], Mat [[1, 0], [0, 1::real]]] 0 1 2 3 2 \<and>
   residual exact [Mat [[1, 0], [0, 16]], Vec [0, 0], Vec [4, 3], Mat [[1, 0], [0, 1]]] 0 1 2 = Inr [4, 3] \<and>
   sd_products exact [Mat [[1, 0], [0, 16]], Vec [0, 0], Vec [4, 3], Mat [[1, 0], [0, 1]]] 0 3 [4, 3] =
     Inr ([4, 3], 25, 160) \<and>
   \<not> is_zero exact (160::real) \<and>
   (\<exists>s' r' err'. sd_body exact [Mat [[1, 0], [0, 16]], Vec [0, 0], Vec [4, 3], Mat [[1, 0], [0, 1]]] 0 1 2 3 [4, 3] =
      (s', Inr (r', err'))) \<and>
   (\<exists>s' l. sd_run exact [Mat [[1, 0], [0, 16]], Vec [0, 0], Vec [4, 3], Mat [[1, 0], [0, 1]]] 0 1 2 3 (1 / 2) 3 = (s', Inr l) \<and>
      steepest_descent exact [Mat [[1, 0], [0, 16]], Vec [0, 0], Vec [4, 3], Mat [[1, 0], [0, 1]]] 0 1 2 3 (1 / 2) 3 = (s', Inr 3) \<and>
      sd_iter l = 3 \<and> residual exact s' 0 1 2 = Inr (sd_r l) \<and>
      sd_error l = fsqrt exact (fdot exact (sd_r l) (sd_r l)) \<and> sd_error l = 3645 / 848)"
proof -
  let ?s = "[Mat [[1, 0], [0, 16]], Vec [0, 0], Vec [4, 3], Mat [[1, 0], [0, 1::real]]]"
  have run: "steepest_descent exact ?s 0 1 2 3 (1 / 2) 3 =
      ([Mat [[1, 0], [0, 16]], Vec [1205 / 848, 1365 / 3392], Vec [4, 3], Mat [[1, 0], [0, 1]]], Inr 3)"
    using spd_run by (simp add: steepest_descent_def)
  show ?thesis
    using steepest_descent_bounded[of 3 exact ?s 0 1 2 3 "1 / 2" 2 "[4, 3]" "[4, 3]" 25 160]
      spd_square spd_residual spd_products spd_run run
    by auto
qed

text \<open>
  C1 as stated fails: this call, with \<open>maxiter = 200\<close>, returns no iteration count, in
  exact arithmetic and in double precision alike.
\<close>

theorem steepest_descent_raises:
  "steepest_descent exact [Mat [[0, 1], [1, 0]], Vec [0, 0], Vec [5, 0], Mat [[1, 0], [0, 1]]] 0 1 2 3 1 200 =
     ([Mat [[0, 1], [1, 0]], Vec [0, 0], Vec [5, 0], Mat [[1, 0], [0, 1]]], Inl ZeroDivisionError) \<and>
   steepest_descent binary64 [Mat [[0, 1], [1, 0]], Vec [0, 0], Vec [5, 0], Mat [[1, 0], [0, 1]]] 0 1 2 3 1 200 =
     ([Mat [[0, 1], [1, 0]], Vec [0, 0], Vec [5, 0], Mat [[1, 0], [0, 1]]], Inl ZeroDivisionError)"
  using indefinite_run[of 1] indefinite_run_binary64 by (simp add: steepest_descent_def)

subsection \<open>What a call changes\<close>









subsection \<open>The residual error across passes\<close>

lemma sd_errors_props:
  assumes "sd_iter l \<le> maxiter"
  shows "sd_errors ar A x b B tolerance maxiter s l \<noteq> [] \<and>
     int (length (sd_errors ar A x b B tolerance maxiter s l)) \<le> maxiter - sd_iter l + 1 \<and>
     (\<forall>i. Suc i < length (sd_errors ar A x b B tolerance maxiter s l) \<longrightarrow>
        fgt ar (sd_errors ar A x b B tolerance maxiter s l ! i) tolerance) \<and>
     (\<forall>s' l'. sd_loop ar A x b B tolerance maxiter s l = (s', Inr l') \<longrightarrow>
        last (sd_errors ar A x b B tolerance maxiter s l) = sd_error l' \<and>
        int (length (sd_errors ar A x b B tolerance maxiter s l)) = sd_iter l' - sd_iter l + 1)"
  using assms
proof (induction ar A x b B tolerance maxiter s l rule: sd_loop.induct)
  case (1 ar A x b B tolerance maxiter s l)
  show ?case
  proof (cases "fgt ar (sd_error l) tolerance \<and> sd_iter l < maxiter")
    case False
    have h: "sd_errors ar A x b B tolerance maxiter s l = [sd_error l]"
      using False by (subst sd_errors.simps) auto
    have "sd_loop ar A x b B tolerance maxiter s l = (s, Inr l)"
      using False by (simp add: sd_loop_stop)
    then show ?thesis
      using h "1.prems" by simp
  next
    case True
    obtain s' res where body: "sd_body ar s A x b B (sd_r l) = (s', res)"
      by (cases "sd_body ar s A x b B (sd_r l)")
    show ?thesis
    proof (cases res)
      case (Inl e)
      have h: "sd_errors ar A x b B tolerance maxiter s l = [sd_error l]"
        using True body Inl by (subst sd_errors.simps) simp
      have "sd_loop ar A x b B tolerance maxiter s l = (s', Inl e)"
        using True body Inl by (simp add: sd_loop_raise)
      then show ?thesis
        using h "1.prems" by simp
    next
      case (Inr v)
      obtain r' err' where v: "v = (r', err')" by (cases v)
      let ?l' = "\<lparr>sd_r = r', sd_error = err', sd_iter = sd_iter l + 1\<rparr>"
      let ?h' = "sd_errors ar A x b B tolerance maxiter s' ?l'"
      have h: "sd_errors ar A x b B tolerance maxiter s l = sd_error l # ?h'"
        using True body Inr v by (subst sd_errors.simps) simp
      have eq: "sd_loop ar A x b B tolerance maxiter s l = sd_loop ar A x b B tolerance maxiter s' ?l'"
        using True body Inr v by (simp add: sd_loop_step)
      have le: "sd_iter ?l' \<le> maxiter"
        using True by simp
      note IH = "1.IH"[OF True body[symmetric] Inr v[symmetric] le]
      have ne: "?h' \<noteq> []" and len: "int (length ?h') \<le> maxiter - sd_iter l"
        and above: "\<And>i. Suc i < length ?h' \<Longrightarrow> fgt ar (?h' ! i) tolerance"
        and fin: "\<And>s'' l''. sd_loop ar A x b B tolerance maxiter s' ?l' = (s'', Inr l'') \<Longrightarrow>
           last ?h' = sd_error l'' \<and> int (length ?h') = sd_iter l'' - sd_iter l"
        using IH by simp_all
      have a: "fgt ar ((sd_error l # ?h') ! i) tolerance" if "Suc i < length (sd_error l # ?h')" for i
      proof (cases i)
        case 0
        then show ?thesis using True by simp
      next
        case (Suc j)
        then show ?thesis using that above[of j] by simp
      qed
      show ?thesis
        unfolding h eq using ne len a fin by auto
    qed
  qed
qed

text \<open>
  C5, as the code has it, in every floating-point arithmetic. The loop makes a pass only
  while the comparison \<open>error > tolerance\<close> is true: of the values that \<open>error\<close> takes
  during a call, the one computed before the loop and the one computed at the end of
  each pass, every one but the last is greater than the tolerance. For a natural number
  \<open>maxiter\<close> there are at most \<open>maxiter + 1\<close> of them, and a call that returns \<open>iter\<close> has
  computed \<open>iter + 1\<close> of them, the last one being the \<open>error\<close> at the return. Nothing
  orders two successive values.
\<close>

theorem error_history_above_tolerance:
  assumes "0 \<le> maxiter"
  shows "int (length (error_history ar s A x b B tolerance maxiter)) \<le> maxiter + 1 \<and>
     (\<forall>i. Suc i < length (error_history ar s A x b B tolerance maxiter) \<longrightarrow>
        fgt ar (error_history ar s A x b B tolerance maxiter ! i) tolerance) \<and>
     (\<forall>s' l. sd_run ar s A x b B tolerance maxiter = (s', Inr l) \<longrightarrow>
        error_history ar s A x b B tolerance maxiter \<noteq> [] \<and>
        last (error_history ar s A x b B tolerance maxiter) = sd_error l \<and>
        int (length (error_history ar s A x b B tolerance maxiter)) = sd_iter l + 1)"
proof (cases "residual ar s A x b")
  case (Inl e)
  have "error_history ar s A x b B tolerance maxiter = []"
    "sd_run ar s A x b B tolerance maxiter = (s, Inl e)"
    using Inl by (simp_all add: error_history_def sd_run_def and_then_def)
  then show ?thesis using assms by simp
next
  case (Inr r)
  let ?l = "\<lparr>sd_r = r, sd_error = fsqrt ar (fdot ar r r), sd_iter = 0\<rparr>"
  have h: "error_history ar s A x b B tolerance maxiter = sd_errors ar A x b B tolerance maxiter s ?l"
    using Inr by (simp add: error_history_def and_then_def residual_error_eq)
  have run: "sd_run ar s A x b B tolerance maxiter = sd_loop ar A x b B tolerance maxiter s ?l"
    using Inr by (simp add: sd_run_def and_then_def residual_error_eq)
  have "sd_iter ?l \<le> maxiter"
    using assms by simp
  from sd_errors_props[OF this, of ar A x b B tolerance s]
  show ?thesis
    unfolding h run by simp
qed

theorem error_history_above_tolerance_witness:
  "(0::int) \<le> 3 \<and>
   error_history exact [Mat [[1, 0], [0, 16]], Vec [0, 0], Vec [4, 3], Mat [[1, 0], [0, 1]]] 0 1 2 3 (1 / 2) 3 =
     [5, 45 / 8, 405 / 106, 3645 / 848] \<and>
   fgt exact (5::real) (1 / 2) \<and> fgt exact (45 / 8 :: real) (1 / 2) \<and> fgt exact (405 / 106 :: real) (1 / 2) \<and>
   (\<exists>s' l. sd_run exact [Mat [[1, 0], [0, 16]], Vec [0, 0], Vec [4, 3], Mat [[1, 0], [0, 1]]] 0 1 2 3 (1 / 2) 3 = (s', Inr l) \<and>
      sd_error l = 3645 / 848 \<and> sd_iter l = 3)"
proof -
  let ?s = "[Mat [[1, 0], [0, 16]], Vec [0, 0], Vec [4, 3], Mat [[1, 0], [0, 1::real]]]"
  have "\<forall>s' l. sd_run exact ?s 0 1 2 3 (1 / 2) 3 = (s', Inr l) \<longrightarrow>
      last (error_history exact ?s 0 1 2 3 (1 / 2) 3) = sd_error l \<and>
      int (length (error_history exact ?s 0 1 2 3 (1 / 2) 3)) = sd_iter l + 1"
    using error_history_above_tolerance[of 3 exact ?s 0 1 2 3 "1 / 2"] by simp
  then show ?thesis
    using spd_run spd_history by simp
qed

text \<open>
  C5 as stated fails: on this symmetric positive definite system, with the identity as
  preconditioner, the residual error is \<open>5\<close> before the loop, \<open>5.625\<close> at the end of the
  first pass, \<open>405/106\<close> at the end of the second and \<open>3645/848\<close> at the end of the third,
  all above the tolerance \<open>1/2\<close>: it goes up in the first pass and again in the third.
  In double precision the first pass gives the same two values, \<open>5\<close> and \<open>5.625\<close>.
\<close>

theorem residual_error_increases:
  "error_history exact [Mat [[1, 0], [0, 16]], Vec [0, 0], Vec [4, 3], Mat [[1, 0], [0, 1]]] 0 1 2 3 (1 / 2) 3 =
     [5, 45 / 8, 405 / 106, 3645 / 848] \<and>
   (1 / 2 :: real) < 5 \<and> (5::real) < 45 / 8 \<and>
   (1 / 2 :: real) < 405 / 106 \<and> (405 / 106 :: real) < 3645 / 848 \<and>
   steepest_descent exact [Mat [[1, 0], [0, 16]], Vec [0, 0], Vec [4, 3], Mat [[1, 0], [0, 1]]] 0 1 2 3 (1 / 2) 3 =
     ([Mat [[1, 0], [0, 16]], Vec [1205 / 848, 1365 / 3392], Vec [4, 3], Mat [[1, 0], [0, 1]]], Inr 3) \<and>
   error_history binary64 [Mat [[1, 0], [0, 16]], Vec [0, 0], Vec [4, 3], Mat [[1, 0], [0, 1]]] 0 1 2 3 (1 / 2) 1 =
     [5, 45 / 8]"
  using spd_history spd_run spd_first_pass_binary64 by (simp add: steepest_descent_def)

section \<open>Properties of \<open>Diag\<close> and \<open>InvDiag\<close>\<close>




subsection \<open>The product in double precision\<close>



section \<open>Properties of \<open>HyperCubeMesh\<close>\<close>

lemma HyperCubeMesh_PyInt:
  "HyperCubeMesh (PyInt d) ncells =
     (if d = 1 then (if ncells < 1 then Inl LibraryError else Inr (UnitIntervalMesh ncells))
      else if d = 2 then (if ncells < 1 then Inl LibraryError else Inr (UnitSquareMesh ncells ncells))
      else if d = 3
        then (if ncells < 1 then Inl LibraryError else Inr (UnitCubeMesh ncells ncells ncells))
      else Inl KeyError)"
  by (simp add: HyperCubeMesh_def py_eq_def tuple_times_def and_then_def numeral_2_eq_2 numeral_3_eq_3)

lemma HyperCubeMesh_PyFloat:
  "HyperCubeMesh (PyFloat r) ncells = (if r = 1 \<or> r = 2 \<or> r = 3 then Inl TypeError else Inl KeyError)"
  by (simp add: HyperCubeMesh_def py_eq_def tuple_times_def and_then_def)

text \<open>
  C9, as the code has it. For an \<open>int\<close> \<open>dim\<close> that is 1, 2 or 3 and at least one cell the
  call returns the unit interval, unit square or unit cube mesh with \<open>ncells\<close>
  subdivisions along each of the \<open>dim\<close> directions, and with \<open>ncells < 1\<close> the mesh class
  raises; for any other \<open>int\<close> the lookup raises \<open>KeyError\<close> and no mesh class is called.
  A \<open>float\<close> equal to 1, 2 or 3 finds the class and raises \<open>TypeError\<close> at
  \<open>(ncells, )*dim\<close>; any other \<open>float\<close> raises \<open>KeyError\<close>.
\<close>

theorem HyperCubeMesh_cases:
  "(1 \<le> ncells \<longrightarrow>
      HyperCubeMesh (PyInt 1) ncells = Inr (UnitIntervalMesh ncells) \<and>
      HyperCubeMesh (PyInt 2) ncells = Inr (UnitSquareMesh ncells ncells) \<and>
      HyperCubeMesh (PyInt 3) ncells = Inr (UnitCubeMesh ncells ncells ncells)) \<and>
   (d \<in> {1, 2, 3} \<and> 1 \<le> ncells \<longrightarrow>
      (\<exists>m. HyperCubeMesh (PyInt d) ncells = Inr m \<and> subdivisions m = replicate (nat d) ncells)) \<and>
   (d \<in> {1, 2, 3} \<and> ncells < 1 \<longrightarrow> HyperCubeMesh (PyInt d) ncells = Inl LibraryError) \<and>
   (d \<notin> {1, 2, 3} \<longrightarrow>
      dict_get [(1, UnitIntervalMesh_class), (2, UnitSquareMesh_class), (3, UnitCubeMesh_class)]
        (PyInt d) = Inl KeyError \<and>
      HyperCubeMesh (PyInt d) ncells = Inl KeyError) \<and>
   (r \<in> {1, 2, 3} \<longrightarrow> HyperCubeMesh (PyFloat r) ncells = Inl TypeError) \<and>
   (r \<notin> {1, 2, 3} \<longrightarrow> HyperCubeMesh (PyFloat r) ncells = Inl KeyError)"
  by (auto simp: HyperCubeMesh_PyInt HyperCubeMesh_PyFloat py_eq_def numeral_2_eq_2 numeral_3_eq_3)

theorem HyperCubeMesh_cases_witness:
  "(1::int) \<le> 8 \<and>
   HyperCubeMesh (PyInt 1) 8 = Inr (UnitIntervalMesh 8) \<and>
   HyperCubeMesh (PyInt 2) 8 = Inr (UnitSquareMesh 8 8) \<and>
   HyperCubeMesh (PyInt 3) 8 = Inr (UnitCubeMesh 8 8 8) \<and>
   (\<exists>m. HyperCubeMesh (PyInt 3) 8 = Inr m \<and> subdivisions m = replicate (nat 3) 8) \<and>
   (0::int) < 1 \<and> HyperCubeMesh (PyInt 2) 0 = Inl LibraryError \<and>
   (4::int) \<notin> {1, 2, 3} \<and> HyperCubeMesh (PyInt 4) 8 = Inl KeyError \<and>
   (0::int) \<notin> {1, 2, 3} \<and> HyperCubeMesh (PyInt 0) 8 = Inl KeyError \<and>
   (2::real) \<in> {1, 2, 3} \<and> HyperCubeMesh (PyFloat 2) 8 = Inl TypeError \<and>
   (5 / 2 :: real) \<notin> {1, 2, 3} \<and> HyperCubeMesh (PyFloat (5 / 2)) 8 = Inl KeyError"
  using HyperCubeMesh_cases[of 8 3 "5 / 2"] HyperCubeMesh_cases[of 0 2 2]
    HyperCubeMesh_cases[of 8 4 2] HyperCubeMesh_cases[of 8 0 2]
  by (simp add: numeral_3_eq_3)

text \<open>
  C9 as stated fails: with \<open>dim = 1\<close> and no cell the call returns no mesh, the mesh
  class raises; and for the float \<open>dim = 1.0\<close>, which is 1, the lookup succeeds and the
  call raises \<open>TypeError\<close>.
\<close>

theorem HyperCubeMesh_rejects:
  "HyperCubeMesh (PyInt 1) 0 = Inl LibraryError \<and>
   HyperCubeMesh (PyInt 3) (- 2) = Inl LibraryError \<and>
   HyperCubeMesh (PyFloat 1) 8 = Inl TypeError"
  by (simp add: HyperCubeMesh_PyInt HyperCubeMesh_PyFloat)

section \<open>Exceptions of the notebooks' functions\<close>










lemma replace_M_PI: "replace ''M_PI'' ''pi'' ''sin(M_PI*x[0])'' = ''sin(pi*x[0])''"
  by simp














section \<open>Where the experiments get their solution and iteration count\<close>

lemma Jacobi_total: "\<exists>B. Jacobi ar A = Inr B"
  by (simp add: Jacobi_def InvDiag_def get_mat_def setDiagonal_def createAIJ_def getDiagonal_def
      reciprocal_def Let_def)

text \<open>
  C3, as the code has it, in every floating-point arithmetic. Every experiment but the
  steepest-descent one gets its solution vector and its printed count from one call of
  an external solver on the assembled system. The steepest-descent experiment gets them
  from the notebook's own loop: they are what \<open>steepest_descent\<close> returns and leaves in
  \<open>x\<close>, whatever the external solvers are.
\<close>

theorem experiment_solver_origin:
  "(e \<noteq> SteepestDescent_Poisson \<longrightarrow>
      (\<exists>c. experiment_solve ar ext e A b B x = apply_solver ext c \<and> sc_A c = A \<and> sc_b c = b)) \<and>
   experiment_solve ar ext SteepestDescent_Poisson A b B x =
     experiment_solve ar ext' SteepestDescent_Poisson A b B x \<and>
   (experiment_solve ar ext SteepestDescent_Poisson A b B x = Inr (xv, niters) \<longleftrightarrow>
      (\<exists>s. steepest_descent ar [Mat A, Vec x, Vec b, Mat B] 0 1 2 3 (flit ar (1 / 10000)) 200 =
             (s, Inr niters) \<and>
           get_vec s 1 = Inr xv))"
proof -
  obtain J where J: "Jacobi ar A = Inr J"
    using Jacobi_total by blast
  have "e \<noteq> SteepestDescent_Poisson \<longrightarrow>
      (\<exists>c. experiment_solve ar ext e A b B x = apply_solver ext c \<and> sc_A c = A \<and> sc_b c = b)"
    by (cases e) (simp_all add: J and_then_def, (rule exI, rule conjI, rule refl, simp)+)
  moreover have "experiment_solve ar ext SteepestDescent_Poisson A b B x =
     experiment_solve ar ext' SteepestDescent_Poisson A b B x"
    by simp
  moreover have "experiment_solve ar ext SteepestDescent_Poisson A b B x = Inr (xv, niters) \<longleftrightarrow>
      (\<exists>s. steepest_descent ar [Mat A, Vec x, Vec b, Mat B] 0 1 2 3 (flit ar (1 / 10000)) 200 =
             (s, Inr niters) \<and>
           get_vec s 1 = Inr xv)"
    by (auto simp: and_then_def split: prod.splits sum.splits)
  ultimately show ?thesis by blast
qed

lemma one_by_one_run:
  "steepest_descent exact [Mat [[2]], Vec [0], Vec [1], Mat [[1]]] 0 1 2 3 (1 / 10000) 200 =
     ([Mat [[2]], Vec [1 / 2], Vec [1], Mat [[1]]], Inr 1)"
proof -
  let ?s = "[Mat [[2]], Vec [0], Vec [1], Mat [[1::real]]]"
  let ?s' = "[Mat [[2]], Vec [1 / 2], Vec [1], Mat [[1::real]]]"
  let ?l = "\<lparr>sd_r = [1], sd_error = 1, sd_iter = 0\<rparr> :: real sd_locals"
  let ?l' = "\<lparr>sd_r = [0], sd_error = 0, sd_iter = 1\<rparr> :: real sd_locals"
  have res: "residual exact ?s 0 1 2 = Inr [1]"
    by (simp add: sd_defs)
  have body: "sd_body exact ?s 0 1 2 3 [1] = (?s', Inr ([0], 0))"
    by (simp add: sd_defs)
  have "sd_loop exact 0 1 2 3 (1 / 10000) 200 ?s ?l = sd_loop exact 0 1 2 3 (1 / 10000) 200 ?s' ?l'"
    by (subst sd_loop.simps) (use body in simp)
  also have "\<dots> = (?s', Inr ?l')"
    by (rule sd_loop_stop) simp
  finally show ?thesis
    using res by (simp add: steepest_descent_def sd_run_def and_then_def residual_error_eq)
qed

theorem experiment_solver_origin_witness:
  "MinRes_mixed_Poisson \<noteq> SteepestDescent_Poisson \<and>
   (\<exists>c. experiment_solve exact only_MinRes MinRes_mixed_Poisson [[1]] [1] [[1]] [0] =
          apply_solver only_MinRes c \<and> sc_A c = [[1]] \<and> sc_b c = [1]) \<and>
   experiment_solve exact only_MinRes SteepestDescent_Poisson [[2]] [1] [[1]] [0] =
     experiment_solve exact no_solver SteepestDescent_Poisson [[2]] [1] [[1]] [0] \<and>
   experiment_solve exact only_MinRes SteepestDescent_Poisson [[2]] [1] [[1]] [0] = Inr ([1 / 2], 1) \<and>
   (\<exists>s. steepest_descent exact [Mat [[2]], Vec [0], Vec [1], Mat [[1]]] 0 1 2 3 (1 / 10000) 200 = (s, Inr 1) \<and>
        get_vec s 1 = Inr [1 / 2])"
proof -
  have "experiment_solve exact only_MinRes SteepestDescent_Poisson [[2]] [1] [[1]] [0] = Inr ([1 / 2], 1)"
    using one_by_one_run by (simp add: and_then_def get_vec_def)
  then show ?thesis
    using experiment_solver_origin[of MinRes_mixed_Poisson exact only_MinRes "[[1]]" "[1]" "[[1]]" "[0]"]
      experiment_solver_origin[of SteepestDescent_Poisson exact only_MinRes "[[2]]" "[1]" "[[1]]" "[0]"
        no_solver "[1 / 2]" 1]
    by simp
qed

text \<open>
  C3 as stated fails: with an external library in which every iterative solver raises,
  the steepest-descent experiment still gets its solution and prints its count.
\<close>

theorem steepest_descent_experiment_is_own_loop:
  "experiment_solve exact no_solver SteepestDescent_Poisson [[2]] [1] [[1]] [0] = Inr ([1 / 2], 1) \<and>
   experiment_solve exact no_solver ConjGrad_Poisson [[2]] [1] [[1]] [0] = Inl LibraryError"
  using one_by_one_run by (simp add: and_then_def get_vec_def apply_solver_def no_solver_def)

text \<open>
  C4, as the code has it. An experiment either runs the notebook's own steepest descent
  or calls the external class \<open>Richardson\<close>, \<open>ConjGrad\<close>, \<open>LGMRES\<close> or \<open>MinRes\<close>: five
  methods, \<open>MinRes\<close> for the two saddle-point systems of \<open>coupled.ipynb\<close>.
\<close>

theorem experiment_methods:
  "(e = SteepestDescent_Poisson \<and>
      experiment_solve ar ext e A b B x = experiment_solve ar ext' e A b B x) \<or>
   (\<exists>c. experiment_solve ar ext e A b B x = apply_solver ext c \<and>
      solver c \<in> {''Richardson'', ''ConjGrad'', ''LGMRES'', ''MinRes''} \<and>
      (solver c = ''MinRes'' \<longleftrightarrow> e \<in> {MinRes_mixed_Poisson, MinRes_Babuska}))"
proof -
  obtain J where J: "Jacobi ar A = Inr J"
    using Jacobi_total by blast
  show ?thesis
    by (cases e) (simp_all add: J and_then_def, (rule exI, rule conjI, rule refl, simp)+)
qed

theorem experiment_methods_witness:
  "(\<exists>c. experiment_solve exact only_MinRes MinRes_Babuska [[1]] [1] [[1]] [0] = apply_solver only_MinRes c \<and>
      solver c \<in> {''Richardson'', ''ConjGrad'', ''LGMRES'', ''MinRes''} \<and>
      (solver c = ''MinRes'' \<longleftrightarrow> MinRes_Babuska \<in> {MinRes_mixed_Poisson, MinRes_Babuska})) \<and>
   experiment_solve exact only_MinRes SteepestDescent_Poisson [[2]] [1] [[1]] [0] =
     experiment_solve exact no_solver SteepestDescent_Poisson [[2]] [1] [[1]] [0]"
  using experiment_methods[of MinRes_Babuska exact only_MinRes "[[1]]" "[1]" "[[1]]" "[0]"]
    experiment_methods[of SteepestDescent_Poisson exact only_MinRes "[[2]]" "[1]" "[[1]]" "[0]" no_solver]
  by simp

text \<open>
  C4 as stated fails: with an external library that has no Richardson, conjugate
  gradient or GMRES solver, only \<open>MinRes\<close>, the two experiments of \<open>coupled.ipynb\<close> still
  get their solution and count.
\<close>

theorem coupled_experiments_use_MinRes:
  "experiment_solve exact only_MinRes MinRes_mixed_Poisson [[1]] [1] [[1]] [0] = Inr ([1], 1) \<and>
   experiment_solve exact only_MinRes MinRes_Babuska [[1]] [1] [[1]] [0] = Inr ([1], 1) \<and>
   experiment_solve exact only_MinRes Richardson_Poisson [[1]] [1] [[1]] [0] = Inl LibraryError \<and>
   experiment_solve exact only_MinRes ConjGrad_Poisson [[1]] [1] [[1]] [0] = Inl LibraryError \<and>
   experiment_solve exact only_MinRes LGMRES_Galerkin [[1]] [1] [[1]] [0] = Inl LibraryError"
  by (simp add: apply_solver_def only_MinRes_def and_then_def)

section \<open>What \<open>make\<close> builds\<close>

lemma default_goal_Makefile: "default_goal Makefile = Some ''all''"
  by (simp add: default_goal_def Makefile_def)


lemma expanded_recipe:
  "replace ''$<'' src latexmk_recipe = latexmk_command src"
  by (simp add: latexmk_recipe_def latexmk_command_def)


lemma find_rules:
  "find (\<lambda>r. target r = ''precond.tex'') Makefile = None"
  "find (\<lambda>r. target r = ''p_intro.tex'') Makefile = None"
  "find (\<lambda>r. target r = ''p_lax_milgram.tex'') Makefile = None"
  "find (\<lambda>r. target r = ''coupled.tex'') Makefile = None"
  "find (\<lambda>r. target r = ''precond.pdf'') Makefile =
     Some \<lparr>target = ''precond.pdf'',
       prerequisites = [''precond.tex'', ''p_intro.tex'', ''p_lax_milgram.tex''],
       recipe = [latexmk_recipe]\<rparr>"
  "find (\<lambda>r. target r = ''coupled.pdf'') Makefile =
     Some \<lparr>target = ''coupled.pdf'', prerequisites = [''coupled.tex''],
       recipe = [latexmk_recipe]\<rparr>"
  "find (\<lambda>r. target r = ''all'') Makefile =
     Some \<lparr>target = ''all'', prerequisites = [''precond.pdf'', ''coupled.pdf''], recipe = []\<rparr>"
  by (simp_all add: Makefile_def)

lemma update_all_sources:
  assumes "\<forall>p \<in> set ps. find (\<lambda>r. target r = p) rules = None \<and> mtime st p \<noteq> None"
  shows "update_all (Suc depth) sh rules st ps = Done st"
  using assms by (induction ps) auto




text \<open>
  \<open>make\<close> stops at a command that fails: in a fresh checkout, with a shell in which every
  command fails, it ends with the failure of the first \<open>latexmk\<close> command line.
\<close>

lemma make_stops_at_failed_recipe:
  "make 3 failing_shell Makefile fresh_checkout = RecipeFailed (latexmk_command ''precond.tex'')"
proof -
  have src: "update_all (Suc 0) failing_shell Makefile fresh_checkout
      [''precond.tex'', ''p_intro.tex'', ''p_lax_milgram.tex''] = Done fresh_checkout"
    by (rule update_all_sources) (simp add: find_rules fresh_checkout_def)
  have "must_remake Makefile fresh_checkout
      \<lparr>target = ''precond.pdf'',
       prerequisites = [''precond.tex'', ''p_intro.tex'', ''p_lax_milgram.tex''],
       recipe = [latexmk_recipe]\<rparr>"
    by (simp add: must_remake_def fresh_checkout_def)
  then have "update (Suc (Suc 0)) failing_shell Makefile fresh_checkout ''precond.pdf'' =
      RecipeFailed (latexmk_command ''precond.tex'')"
    using src
    by (simp add: find_rules run_recipe_def expand_def expanded_recipe failing_shell_def
        del: update_all.simps)
  then have "update (Suc (Suc (Suc 0))) failing_shell Makefile fresh_checkout ''all'' =
      RecipeFailed (latexmk_command ''precond.tex'')"
    by (subst update.simps(2)) (simp add: find_rules del: update.simps)
  then show ?thesis
    by (simp add: make_def default_goal_Makefile numeral_3_eq_3 del: update.simps)
qed



end
